theory Spec2Isabelle
  imports Main "HOL-Library.Word" "HOL-Library.Monad_Syntax"
begin

section \<open>Data model\<close>

text \<open>
  The generator draws 16x16 RGBA sprites with Pillow and writes them into an asset
  catalog. Pillow images are mutable objects: a drawer creates one, mutates it in place
  and hands it to the emitter. The model keeps them in a store, a list of images in which
  a reference is an index, together with the trace of everything the program does to the
  file system and the console. Every function of the source that touches either takes
  the world and returns the new one; a raised exception is the result \<open>None\<close>.
\<close>

type_synonym u8 = "8 word"
type_synonym rgb = "u8 \<times> u8 \<times> u8"
type_synonym rgba = "u8 \<times> u8 \<times> u8 \<times> u8"

text \<open>An image is its rows of pixels, top row first: pixel \<open>(x, y)\<close> is \<open>im ! y ! x\<close>.\<close>

type_synonym image = "rgba list list"
type_synonym ref = nat

text \<open>
  The \<open>color\<close> argument of \<open>draw_pixel\<close> and \<open>fill_rect\<close> is either a string, a name
  of the palette, or a tuple of three channels (\<open>isinstance(color, str)\<close> tells them
  apart).
\<close>

datatype color = Named string | Literal rgb

text \<open>What \<open>json.dump\<close> is given: dictionaries keep their insertion order.\<close>

datatype json = JString string | JInt int | JBool bool | JList "json list"
  | JDict "(string \<times> json) list"

datatype event =
    Makedirs string
  | Save string image
  | JsonDump string json
  | Print string

record world =
  images :: "image list"
  trace :: "event list"

definition TILE_SIZE :: int where
  "TILE_SIZE = 16"

definition ASSETS_PATH :: string where
  "ASSETS_PATH = ''Outpost/Assets.xcassets''"

section \<open>Python and Pillow primitives\<close>

text \<open>\<open>range(a, b)\<close>: the integers from \<open>a\<close> up to, not including, \<open>b\<close>.\<close>

definition py_range :: "int \<Rightarrow> int \<Rightarrow> int list" where
  "py_range a b = map (\<lambda>i. a + int i) [0..<nat (b - a)]"

text \<open>
  \<open>range(a, b, k)\<close> for a positive step, the only kind the source uses
  (\<open>range(0, 16, 4)\<close> and \<open>range(offset, 16, 8)\<close>).
\<close>

definition py_range_step :: "int \<Rightarrow> int \<Rightarrow> int \<Rightarrow> int list" where
  "py_range_step a b k = map (\<lambda>i. a + int i * k) [0..<nat ((b - a + k - 1) div k)]"

text \<open>A \<open>for\<close> loop whose body updates the world: the first exception ends it.\<close>

primrec for_each :: "'a list \<Rightarrow> ('a \<Rightarrow> world \<Rightarrow> world option) \<Rightarrow> world \<Rightarrow> world option" where
  "for_each [] body s = Some s"
| "for_each (x # xs) body s = body x s \<bind> for_each xs body"

text \<open>\<open>Image.new('RGBA', size, fill)\<close> allocates an image filled with one colour.\<close>

definition Image_new :: "nat \<times> nat \<Rightarrow> rgba \<Rightarrow> world \<Rightarrow> ref \<times> world" where
  "Image_new sz fill s =
     (length (images s),
      s\<lparr>images := images s @ [replicate (snd sz) (replicate (fst sz) fill)]\<rparr>)"

text \<open>
  \<open>img.putpixel((x, y), value)\<close>. Pillow counts a negative index from the far edge and
  raises IndexError for a position outside the image; \<open>draw_pixel\<close> never passes either.
\<close>

definition image_putpixel :: "image \<Rightarrow> int \<times> int \<Rightarrow> rgba \<Rightarrow> image option" where
  "image_putpixel im xy v =
     (let ysize = int (length im);
          y = (if snd xy < 0 then ysize + snd xy else snd xy)
      in if 0 \<le> y \<and> y < ysize then
           let row = im ! nat y;
               xsize = int (length row);
               x = (if fst xy < 0 then xsize + fst xy else fst xy)
           in if 0 \<le> x \<and> x < xsize then Some (im[nat y := row[nat x := v]]) else None
         else None)"

definition putpixel :: "ref \<Rightarrow> int \<times> int \<Rightarrow> rgba \<Rightarrow> world \<Rightarrow> world option" where
  "putpixel img xy v s =
     (if img < length (images s) then do {
        im \<leftarrow> image_putpixel (images s ! img) xy v;
        Some (s\<lparr>images := (images s)[img := im]\<rparr>)
      } else None)"

text \<open>\<open>img.getpixel((x, y))\<close>, used to state what a drawer has drawn.\<close>

definition getpixel :: "image \<Rightarrow> nat \<times> nat \<Rightarrow> rgba" where
  "getpixel im xy = im ! snd xy ! fst xy"

section \<open>The palette and the canvas primitives\<close>

definition COLORS :: "string \<rightharpoonup> rgb" where
  "COLORS = map_of [
    (''grass_light'', (98, 168, 68)),
    (''grass_dark'', (68, 138, 48)),
    (''tree_dark'', (34, 82, 34)),
    (''tree_light'', (54, 112, 54)),
    (''shrub'', (78, 128, 58)),
    (''plant_green'', (88, 178, 88)),
    (''dirt_light'', (158, 118, 78)),
    (''dirt_dark'', (128, 88, 58)),
    (''wood_light'', (168, 128, 88)),
    (''wood_med'', (138, 98, 58)),
    (''wood_dark'', (108, 78, 48)),
    (''bark'', (88, 58, 38)),
    (''stone_light'', (148, 148, 148)),
    (''stone_med'', (118, 118, 118)),
    (''stone_dark'', (88, 88, 88)),
    (''wall_dark'', (68, 68, 68)),
    (''water_light'', (88, 148, 218)),
    (''water_dark'', (58, 118, 188)),
    (''water_deep'', (38, 88, 158)),
    (''metal_light'', (178, 178, 188)),
    (''metal_dark'', (128, 128, 138)),
    (''gold'', (218, 178, 58)),
    (''gold_dark'', (178, 138, 38)),
    (''skin'', (218, 178, 138)),
    (''skin_dark'', (188, 148, 108)),
    (''beard_brown'', (98, 68, 48)),
    (''goblin_green'', (88, 138, 68)),
    (''goblin_dark'', (58, 108, 48)),
    (''wolf_gray'', (128, 128, 128)),
    (''wolf_dark'', (88, 88, 88)),
    (''bear_brown'', (118, 78, 48)),
    (''bear_dark'', (88, 58, 38)),
    (''giant_purple'', (138, 108, 148)),
    (''undead_pale'', (158, 178, 158)),
    (''undead_dark'', (108, 128, 108)),
    (''bread'', (218, 178, 98)),
    (''meat_red'', (198, 78, 78)),
    (''meat_dark'', (158, 58, 58)),
    (''ale'', (168, 118, 48)),
    (''fabric_red'', (178, 68, 68)),
    (''fabric_blue'', (68, 98, 158)),
    (''select_yellow'', (255, 238, 68)),
    (''select_orange'', (255, 178, 38)),
    (''empty'', (28, 28, 38)),
    (''black'', (0, 0, 0)),
    (''white'', (255, 255, 255))]"

definition new_image :: "world \<Rightarrow> ref \<times> world" where
  "new_image s = Image_new (nat TILE_SIZE, nat TILE_SIZE) (0, 0, 0, 0) s"

text \<open>\<open>color + (255,)\<close>: the tuple of three channels extended by the alpha channel.\<close>

fun with_alpha :: "rgb \<Rightarrow> u8 \<Rightarrow> rgba" where
  "with_alpha (r, g, b) a = (r, g, b, a)"

text \<open>
  \<open>draw_pixel\<close> looks the name up only after the bounds check, so that a name missing
  from the palette raises KeyError for a position inside the tile and nowhere else.
\<close>

definition draw_pixel :: "ref \<Rightarrow> int \<Rightarrow> int \<Rightarrow> color \<Rightarrow> world \<Rightarrow> world option" where
  "draw_pixel img x y color s =
     (if 0 \<le> x \<and> x < TILE_SIZE \<and> 0 \<le> y \<and> y < TILE_SIZE then do {
        c \<leftarrow> (case color of Named name \<Rightarrow> COLORS name | Literal c \<Rightarrow> Some c);
        putpixel img (x, y) (with_alpha c 255) s
      } else Some s)"

definition fill_rect :: "ref \<Rightarrow> int \<Rightarrow> int \<Rightarrow> int \<Rightarrow> int \<Rightarrow> color \<Rightarrow> world \<Rightarrow> world option" where
  "fill_rect img x y w h color =
     for_each (py_range y (y + h)) (\<lambda>py.
       for_each (py_range x (x + w)) (\<lambda>px.
         draw_pixel img px py color))"


section \<open>Strings, paths and files\<close>

text \<open>\<open>str(n)\<close> for an integer: its decimal digits, with a sign when negative.\<close>

definition digit_char :: "nat \<Rightarrow> char" where
  "digit_char d = ''0123456789'' ! (d mod 10)"

function str_nat :: "nat \<Rightarrow> string" where
  "str_nat n = (if n < 10 then [digit_char n] else str_nat (n div 10) @ [digit_char (n mod 10)])"
  by pat_completeness auto
termination
  by (relation "measure id") auto

definition str :: "int \<Rightarrow> string" where
  "str i = (if i < 0 then ''-'' @ str_nat (nat (- i)) else str_nat (nat i))"

text \<open>
  \<open>os.path.join(path, *p)\<close> on a POSIX system: a component that starts with a slash
  replaces what came before it; otherwise it is appended, after a slash unless the path
  so far is empty or ends with one.
\<close>

fun os_path_join :: "string \<Rightarrow> string list \<Rightarrow> string" where
  "os_path_join path [] = path"
| "os_path_join path (b # p) =
     os_path_join
       (if b \<noteq> [] \<and> hd b = CHR ''/'' then b
        else if path = [] \<or> last path = CHR ''/'' then path @ b
        else path @ ''/'' @ b) p"

text \<open>
  The effects on the file system and the console are recorded in the trace, in the order
  in which they happen. They are modelled as succeeding: an I/O error of the operating
  system ends the run of the source with an exception the source never catches.
\<close>

definition os_makedirs :: "string \<Rightarrow> world \<Rightarrow> world option" where
  "os_makedirs path s = Some (s\<lparr>trace := trace s @ [Makedirs path]\<rparr>)"

definition json_dump_to :: "string \<Rightarrow> json \<Rightarrow> world \<Rightarrow> world option" where
  "json_dump_to path contents s = Some (s\<lparr>trace := trace s @ [JsonDump path contents]\<rparr>)"

definition py_print :: "string \<Rightarrow> world \<Rightarrow> world option" where
  "py_print line s = Some (s\<lparr>trace := trace s @ [Print line]\<rparr>)"

definition save :: "ref \<Rightarrow> string \<Rightarrow> world \<Rightarrow> world option" where
  "save img path s =
     (if img < length (images s) then Some (s\<lparr>trace := trace s @ [Save path (images s ! img)]\<rparr>)
      else None)"

text \<open>
  Modelled from the spec: \<open>Image.resize(size, Image.NEAREST)\<close> is code of the Pillow
  library, not of this repository. Section 4.3 of the spec asks for nearest-neighbour
  upscaling with no interpolation; the model is nearest-neighbour sampling as the library
  documents it: the pixel \<open>(X, Y)\<close> of the result is the pixel of the source under the
  centre \<open>(X + 1/2, Y + 1/2)\<close> of that pixel, scaled by source size over target size,
  computed here in exact integer arithmetic. The result is a new image; the source is
  not changed. A size that is not positive raises ValueError.
\<close>

definition image_resize_nearest :: "image \<Rightarrow> nat \<times> nat \<Rightarrow> image" where
  "image_resize_nearest im sz =
     (let ysize = length im;
          xsize = (if im = [] then 0 else length (hd im))
      in map (\<lambda>Y. map (\<lambda>X. im ! (((2 * Y + 1) * ysize) div (2 * snd sz))
                              ! (((2 * X + 1) * xsize) div (2 * fst sz)))
                        [0..<fst sz])
             [0..<snd sz])"

definition resize_nearest :: "ref \<Rightarrow> int \<times> int \<Rightarrow> world \<Rightarrow> (ref \<times> world) option" where
  "resize_nearest img sz s =
     (if img < length (images s) \<and> 0 < fst sz \<and> 0 < snd sz then
        Some (length (images s),
              s\<lparr>images := images s @
                   [image_resize_nearest (images s ! img) (nat (fst sz), nat (snd sz))]\<rparr>)
      else None)"


text \<open>\<open>enumerate(xs)\<close>: every element with its index.\<close>

definition py_enumerate :: "'a list \<Rightarrow> (int \<times> 'a) list" where
  "py_enumerate xs = zip (py_range 0 (int (length xs))) xs"

text \<open>\<open>t[:3]\<close> of a tuple of four channels.\<close>

fun slice3 :: "rgba \<Rightarrow> rgb" where
  "slice3 (r, g, b, a) = (r, g, b)"

section \<open>Terrain sprites\<close>

text \<open>
  Every drawer creates its image, draws on it and returns it. In the source the drawers
  take no argument; here they take the world they run in and return the reference to the
  new image with the world that holds it.
\<close>

definition terrain_empty_air :: "world \<Rightarrow> (ref \<times> world) option" where
  "terrain_empty_air s = do {
     let (img, s) = new_image s;
     s \<leftarrow> fill_rect img 0 0 16 16 (Named ''empty'') s;
     s \<leftarrow> for_each [(3, 4), (8, 2), (12, 7), (5, 12), (14, 11)] (\<lambda>pos.
            draw_pixel img (fst pos) (snd pos) (Literal (slice3 (48, 48, 58, 255)))) s;
     Some (img, s)
   }"

definition terrain_grass :: "world \<Rightarrow> (ref \<times> world) option" where
  "terrain_grass s = do {
     let (img, s) = new_image s;
     s \<leftarrow> fill_rect img 0 0 16 16 (Named ''grass_dark'') s;
     s \<leftarrow> for_each (py_range 0 16) (\<lambda>y.
            for_each (py_range 0 16) (\<lambda>x s.
              if (x + y) mod 3 = 0 then draw_pixel img x y (Named ''grass_light'') s
              else Some s)) s;
     s \<leftarrow> for_each [1, 4, 7, 10, 13] (\<lambda>x s. do {
            s \<leftarrow> draw_pixel img x 0 (Named ''grass_light'') s;
            draw_pixel img (x + 1) 1 (Named ''grass_light'') s
          }) s;
     Some (img, s)
   }"

definition terrain_dirt :: "world \<Rightarrow> (ref \<times> world) option" where
  "terrain_dirt s = do {
     let (img, s) = new_image s;
     s \<leftarrow> fill_rect img 0 0 16 16 (Named ''dirt_dark'') s;
     s \<leftarrow> for_each (py_range 0 16) (\<lambda>y.
            for_each (py_range 0 16) (\<lambda>x s.
              if (x * 3 + y * 7) mod 5 = 0 then draw_pixel img x y (Named ''dirt_light'') s
              else Some s)) s;
     s \<leftarrow> for_each [(3, 5), (10, 8), (6, 12)] (\<lambda>pos.
            draw_pixel img (fst pos) (snd pos) (Named ''stone_med'')) s;
     Some (img, s)
   }"

definition terrain_stone :: "world \<Rightarrow> (ref \<times> world) option" where
  "terrain_stone s = do {
     let (img, s) = new_image s;
     s \<leftarrow> fill_rect img 0 0 16 16 (Named ''stone_med'') s;
     s \<leftarrow> for_each (py_range 0 16) (\<lambda>y.
            for_each (py_range 0 16) (\<lambda>x s.
              if (x * 5 + y * 3) mod 7 = 0 then draw_pixel img x y (Named ''stone_dark'') s
              else if (x * 2 + y * 5) mod 9 = 0 then draw_pixel img x y (Named ''stone_light'') s
              else Some s)) s;
     Some (img, s)
   }"

definition terrain_water :: "world \<Rightarrow> (ref \<times> world) option" where
  "terrain_water s = do {
     let (img, s) = new_image s;
     s \<leftarrow> fill_rect img 0 0 16 16 (Named ''water_dark'') s;
     s \<leftarrow> for_each (py_range_step 0 16 4) (\<lambda>y.
            for_each (py_range 0 16) (\<lambda>x s.
              if (x + y div 4) mod 4 < 2 then do {
                s \<leftarrow> draw_pixel img x y (Named ''water_light'') s;
                draw_pixel img x (y + 1) (Named ''water_light'') s
              } else Some s)) s;
     s \<leftarrow> for_each [(2, 3), (8, 7), (13, 11)] (\<lambda>pos.
            draw_pixel img (fst pos) (snd pos) (Literal (128, 188, 238))) s;
     Some (img, s)
   }"

definition terrain_tree :: "world \<Rightarrow> (ref \<times> world) option" where
  "terrain_tree s = do {
     let (img, s) = new_image s;
     s \<leftarrow> fill_rect img 0 0 16 16 (Named ''grass_dark'') s;
     s \<leftarrow> fill_rect img 6 10 4 6 (Named ''bark'') s;
     s \<leftarrow> fill_rect img 7 11 2 4 (Named ''wood_dark'') s;
     s \<leftarrow> fill_rect img 3 2 10 9 (Named ''tree_dark'') s;
     s \<leftarrow> fill_rect img 2 4 12 5 (Named ''tree_dark'') s;
     s \<leftarrow> fill_rect img 4 3 4 4 (Named ''tree_light'') s;
     s \<leftarrow> draw_pixel img 5 4 (Named ''shrub'') s;
     Some (img, s)
   }"

definition terrain_shrub :: "world \<Rightarrow> (ref \<times> world) option" where
  "terrain_shrub s = do {
     let (img, s) = new_image s;
     s \<leftarrow> fill_rect img 0 0 16 16 (Named ''grass_dark'') s;
     s \<leftarrow> fill_rect img 3 6 10 8 (Named ''shrub'') s;
     s \<leftarrow> fill_rect img 5 4 6 4 (Named ''shrub'') s;
     s \<leftarrow> for_each [(5, 7), (8, 5), (10, 8)] (\<lambda>pos.
            draw_pixel img (fst pos) (snd pos) (Named ''grass_light'')) s;
     s \<leftarrow> for_each [(6, 9), (9, 7), (11, 10)] (\<lambda>pos.
            draw_pixel img (fst pos) (snd pos) (Literal (198, 58, 58))) s;
     Some (img, s)
   }"

definition terrain_wall :: "world \<Rightarrow> (ref \<times> world) option" where
  "terrain_wall s = do {
     let (img, s) = new_image s;
     s \<leftarrow> fill_rect img 0 0 16 16 (Named ''wall_dark'') s;
     s \<leftarrow> fill_rect img 0 0 8 6 (Named ''stone_dark'') s;
     s \<leftarrow> fill_rect img 8 0 8 8 (Named ''stone_med'') s;
     s \<leftarrow> fill_rect img 0 6 10 6 (Named ''stone_med'') s;
     s \<leftarrow> fill_rect img 10 8 6 8 (Named ''stone_dark'') s;
     s \<leftarrow> for_each [(4, 3), (12, 5), (6, 10), (3, 13)] (\<lambda>pos.
            draw_pixel img (fst pos) (snd pos) (Named ''black'')) s;
     Some (img, s)
   }"

definition terrain_ore :: "world \<Rightarrow> (ref \<times> world) option" where
  "terrain_ore s = do {
     let (img, s) = new_image s;
     s \<leftarrow> fill_rect img 0 0 16 16 (Named ''stone_dark'') s;
     s \<leftarrow> fill_rect img 2 3 4 3 (Named ''gold'') s;
     s \<leftarrow> fill_rect img 9 7 5 4 (Named ''gold'') s;
     s \<leftarrow> fill_rect img 4 11 3 3 (Named ''gold'') s;
     s \<leftarrow> for_each [(3, 4), (11, 8), (5, 12)] (\<lambda>pos.
            draw_pixel img (fst pos) (snd pos) (Named ''gold_dark'')) s;
     s \<leftarrow> for_each [(4, 3), (10, 9), (6, 11)] (\<lambda>pos.
            draw_pixel img (fst pos) (snd pos) (Named ''white'')) s;
     Some (img, s)
   }"


definition terrain_wooden_floor :: "world \<Rightarrow> (ref \<times> world) option" where
  "terrain_wooden_floor s = do {
     let (img, s) = new_image s;
     s \<leftarrow> fill_rect img 0 0 16 16 (Named ''wood_med'') s;
     s \<leftarrow> for_each [0, 4, 8, 12] (\<lambda>y.
            fill_rect img 0 y 16 1 (Named ''wood_dark'')) s;
     s \<leftarrow> for_each (py_range 0 16) (\<lambda>y.
            for_each (py_range 0 16) (\<lambda>x s.
              if (x + y * 3) mod 8 = 0 then draw_pixel img x y (Named ''wood_light'') s
              else Some s)) s;
     Some (img, s)
   }"

definition terrain_stone_floor :: "world \<Rightarrow> (ref \<times> world) option" where
  "terrain_stone_floor s = do {
     let (img, s) = new_image s;
     s \<leftarrow> fill_rect img 0 0 16 16 (Named ''stone_light'') s;
     s \<leftarrow> for_each [0, 8] (\<lambda>y.
            fill_rect img 0 y 16 1 (Named ''stone_dark'')) s;
     s \<leftarrow> for_each [0, 8] (\<lambda>x.
            fill_rect img x 0 1 16 (Named ''stone_dark'')) s;
     s \<leftarrow> fill_rect img 1 1 6 6 (Named ''stone_med'') s;
     s \<leftarrow> fill_rect img 9 9 6 6 (Named ''stone_med'') s;
     Some (img, s)
   }"

definition terrain_constructed_wall :: "world \<Rightarrow> (ref \<times> world) option" where
  "terrain_constructed_wall s = do {
     let (img, s) = new_image s;
     s \<leftarrow> fill_rect img 0 0 16 16 (Named ''stone_med'') s;
     s \<leftarrow> for_each (py_range_step 0 16 4) (\<lambda>y s. do {
            s \<leftarrow> fill_rect img 0 y 16 1 (Named ''stone_dark'') s;
            let offset = (if (y div 4) mod 2 = 0 then 4 else 0);
            for_each (py_range_step offset 16 8) (\<lambda>x.
              fill_rect img x y 1 4 (Named ''stone_dark'')) s
          }) s;
     Some (img, s)
   }"

definition terrain_stairs_up :: "world \<Rightarrow> (ref \<times> world) option" where
  "terrain_stairs_up s = do {
     let (img, s) = new_image s;
     s \<leftarrow> fill_rect img 0 0 16 16 (Named ''stone_dark'') s;
     s \<leftarrow> for_each (py_enumerate [12, 8, 4, 0]) (\<lambda>(i, y) s. do {
            s \<leftarrow> fill_rect img 0 y 16 4
                   (if i mod 2 = 0 then Named ''stone_med'' else Named ''stone_light'') s;
            fill_rect img 0 y 16 1 (Named ''stone_dark'') s
          }) s;
     s \<leftarrow> fill_rect img 7 5 2 6 (Named ''white'') s;
     s \<leftarrow> for_each (py_range 0 3) (\<lambda>i s. do {
            s \<leftarrow> draw_pixel img (7 - i) (5 + i) (Named ''white'') s;
            draw_pixel img (8 + i) (5 + i) (Named ''white'') s
          }) s;
     Some (img, s)
   }"

definition terrain_stairs_down :: "world \<Rightarrow> (ref \<times> world) option" where
  "terrain_stairs_down s = do {
     let (img, s) = new_image s;
     s \<leftarrow> fill_rect img 0 0 16 16 (Named ''stone_dark'') s;
     s \<leftarrow> for_each (py_enumerate [0, 4, 8, 12]) (\<lambda>(i, y) s. do {
            s \<leftarrow> fill_rect img 0 y 16 4
                   (if i mod 2 = 0 then Named ''stone_med'' else Named ''stone_light'') s;
            fill_rect img 0 (y + 3) 16 1 (Named ''stone_dark'') s
          }) s;
     s \<leftarrow> fill_rect img 7 5 2 6 (Named ''white'') s;
     s \<leftarrow> for_each (py_range 0 3) (\<lambda>i s. do {
            s \<leftarrow> draw_pixel img (7 - i) (11 - i) (Named ''white'') s;
            draw_pixel img (8 + i) (11 - i) (Named ''white'') s
          }) s;
     Some (img, s)
   }"

definition terrain_stairs_updown :: "world \<Rightarrow> (ref \<times> world) option" where
  "terrain_stairs_updown s = do {
     let (img, s) = new_image s;
     s \<leftarrow> fill_rect img 0 0 16 16 (Named ''stone_med'') s;
     s \<leftarrow> for_each [0, 4, 8, 12] (\<lambda>y.
            fill_rect img 0 y 16 1 (Named ''stone_dark'')) s;
     s \<leftarrow> fill_rect img 3 4 2 8 (Named ''white'') s;
     s \<leftarrow> draw_pixel img 2 5 (Named ''white'') s;
     s \<leftarrow> draw_pixel img 5 5 (Named ''white'') s;
     s \<leftarrow> fill_rect img 11 4 2 8 (Named ''white'') s;
     s \<leftarrow> draw_pixel img 10 11 (Named ''white'') s;
     s \<leftarrow> draw_pixel img 13 11 (Named ''white'') s;
     Some (img, s)
   }"

definition terrain_ramp_up :: "world \<Rightarrow> (ref \<times> world) option" where
  "terrain_ramp_up s = do {
     let (img, s) = new_image s;
     s \<leftarrow> fill_rect img 0 0 16 16 (Named ''stone_dark'') s;
     s \<leftarrow> for_each (py_range 0 16) (\<lambda>i.
            fill_rect img 0 (15 - i) (i + 1) 1 (Named ''stone_med'')) s;
     s \<leftarrow> for_each (py_range 0 14) (\<lambda>i.
            draw_pixel img i (14 - i) (Named ''stone_light'')) s;
     Some (img, s)
   }"

definition terrain_ramp_down :: "world \<Rightarrow> (ref \<times> world) option" where
  "terrain_ramp_down s = do {
     let (img, s) = new_image s;
     s \<leftarrow> fill_rect img 0 0 16 16 (Named ''stone_dark'') s;
     s \<leftarrow> for_each (py_range 0 16) (\<lambda>i.
            fill_rect img (15 - i) (15 - i) (i + 1) 1 (Named ''stone_med'')) s;
     s \<leftarrow> for_each (py_range 0 14) (\<lambda>i.
            draw_pixel img (15 - i) (14 - i) (Named ''stone_light'')) s;
     Some (img, s)
   }"


section \<open>Creature sprites\<close>

definition creature_dwarf :: "world \<Rightarrow> (ref \<times> world) option" where
  "creature_dwarf s = do {
     let (img, s) = new_image s;
     s \<leftarrow> fill_rect img 4 7 8 6 (Named ''fabric_blue'') s;
     s \<leftarrow> fill_rect img 5 2 6 5 (Named ''skin'') s;
     s \<leftarrow> fill_rect img 5 5 6 4 (Named ''beard_brown'') s;
     s \<leftarrow> fill_rect img 6 8 4 2 (Named ''beard_brown'') s;
     s \<leftarrow> draw_pixel img 6 3 (Named ''black'') s;
     s \<leftarrow> draw_pixel img 9 3 (Named ''black'') s;
     s \<leftarrow> fill_rect img 5 1 6 2 (Named ''metal_dark'') s;
     s \<leftarrow> draw_pixel img 7 0 (Named ''metal_light'') s;
     s \<leftarrow> draw_pixel img 8 0 (Named ''metal_light'') s;
     s \<leftarrow> fill_rect img 5 13 2 3 (Named ''skin_dark'') s;
     s \<leftarrow> fill_rect img 9 13 2 3 (Named ''skin_dark'') s;
     s \<leftarrow> fill_rect img 2 8 2 4 (Named ''skin'') s;
     s \<leftarrow> fill_rect img 12 8 2 4 (Named ''skin'') s;
     Some (img, s)
   }"

definition creature_goblin :: "world \<Rightarrow> (ref \<times> world) option" where
  "creature_goblin s = do {
     let (img, s) = new_image s;
     s \<leftarrow> fill_rect img 5 6 6 7 (Named ''goblin_dark'') s;
     s \<leftarrow> fill_rect img 4 1 8 6 (Named ''goblin_green'') s;
     s \<leftarrow> draw_pixel img 3 2 (Named ''goblin_green'') s;
     s \<leftarrow> draw_pixel img 12 2 (Named ''goblin_green'') s;
     s \<leftarrow> draw_pixel img 5 3 (Literal (255, 68, 68)) s;
     s \<leftarrow> draw_pixel img 10 3 (Literal (255, 68, 68)) s;
     s \<leftarrow> fill_rect img 6 5 4 1 (Named ''black'') s;
     s \<leftarrow> fill_rect img 5 13 2 3 (Named ''goblin_dark'') s;
     s \<leftarrow> fill_rect img 9 13 2 3 (Named ''goblin_dark'') s;
     s \<leftarrow> fill_rect img 3 7 2 4 (Named ''goblin_green'') s;
     s \<leftarrow> fill_rect img 11 7 2 4 (Named ''goblin_green'') s;
     Some (img, s)
   }"

definition creature_wolf :: "world \<Rightarrow> (ref \<times> world) option" where
  "creature_wolf s = do {
     let (img, s) = new_image s;
     s \<leftarrow> fill_rect img 2 7 12 5 (Named ''wolf_gray'') s;
     s \<leftarrow> fill_rect img 11 4 5 5 (Named ''wolf_gray'') s;
     s \<leftarrow> fill_rect img 14 6 2 2 (Named ''wolf_dark'') s;
     s \<leftarrow> draw_pixel img 12 3 (Named ''wolf_dark'') s;
     s \<leftarrow> draw_pixel img 14 3 (Named ''wolf_dark'') s;
     s \<leftarrow> draw_pixel img 13 5 (Named ''black'') s;
     s \<leftarrow> fill_rect img 3 12 2 4 (Named ''wolf_dark'') s;
     s \<leftarrow> fill_rect img 7 12 2 4 (Named ''wolf_dark'') s;
     s \<leftarrow> fill_rect img 11 10 2 4 (Named ''wolf_dark'') s;
     s \<leftarrow> fill_rect img 0 6 3 2 (Named ''wolf_gray'') s;
     Some (img, s)
   }"

definition creature_bear :: "world \<Rightarrow> (ref \<times> world) option" where
  "creature_bear s = do {
     let (img, s) = new_image s;
     s \<leftarrow> fill_rect img 2 5 12 8 (Named ''bear_brown'') s;
     s \<leftarrow> fill_rect img 10 2 6 6 (Named ''bear_brown'') s;
     s \<leftarrow> fill_rect img 13 4 3 3 (Named ''bear_dark'') s;
     s \<leftarrow> draw_pixel img 15 5 (Named ''black'') s;
     s \<leftarrow> fill_rect img 10 1 2 2 (Named ''bear_dark'') s;
     s \<leftarrow> fill_rect img 14 1 2 2 (Named ''bear_dark'') s;
     s \<leftarrow> draw_pixel img 11 3 (Named ''black'') s;
     s \<leftarrow> fill_rect img 3 13 3 3 (Named ''bear_dark'') s;
     s \<leftarrow> fill_rect img 8 13 3 3 (Named ''bear_dark'') s;
     Some (img, s)
   }"

definition creature_giant :: "world \<Rightarrow> (ref \<times> world) option" where
  "creature_giant s = do {
     let (img, s) = new_image s;
     s \<leftarrow> fill_rect img 3 4 10 10 (Named ''giant_purple'') s;
     s \<leftarrow> fill_rect img 5 0 6 5 (Named ''giant_purple'') s;
     s \<leftarrow> draw_pixel img 6 2 (Literal (255, 255, 128)) s;
     s \<leftarrow> draw_pixel img 9 2 (Literal (255, 255, 128)) s;
     s \<leftarrow> fill_rect img 7 3 2 1 (Named ''black'') s;
     s \<leftarrow> fill_rect img 4 14 3 2 (Literal (108, 78, 118)) s;
     s \<leftarrow> fill_rect img 9 14 3 2 (Literal (108, 78, 118)) s;
     s \<leftarrow> fill_rect img 1 5 2 6 (Named ''giant_purple'') s;
     s \<leftarrow> fill_rect img 13 5 2 6 (Named ''giant_purple'') s;
     Some (img, s)
   }"

definition creature_undead :: "world \<Rightarrow> (ref \<times> world) option" where
  "creature_undead s = do {
     let (img, s) = new_image s;
     s \<leftarrow> fill_rect img 5 6 6 8 (Named ''undead_dark'') s;
     s \<leftarrow> fill_rect img 5 1 6 6 (Named ''undead_pale'') s;
     s \<leftarrow> fill_rect img 6 2 2 2 (Named ''black'') s;
     s \<leftarrow> fill_rect img 9 2 2 2 (Named ''black'') s;
     s \<leftarrow> draw_pixel img 6 2 (Literal (158, 255, 158)) s;
     s \<leftarrow> draw_pixel img 9 2 (Literal (158, 255, 158)) s;
     s \<leftarrow> fill_rect img 7 5 2 1 (Named ''black'') s;
     s \<leftarrow> fill_rect img 3 7 2 5 (Named ''undead_pale'') s;
     s \<leftarrow> fill_rect img 11 7 2 5 (Named ''undead_pale'') s;
     s \<leftarrow> fill_rect img 5 14 2 2 (Named ''undead_dark'') s;
     s \<leftarrow> fill_rect img 9 14 2 2 (Named ''undead_dark'') s;
     Some (img, s)
   }"


section \<open>Item sprites\<close>

definition item_food :: "world \<Rightarrow> (ref \<times> world) option" where
  "item_food s = do {
     let (img, s) = new_image s;
     s \<leftarrow> fill_rect img 3 6 10 6 (Named ''bread'') s;
     s \<leftarrow> fill_rect img 4 5 8 2 (Named ''bread'') s;
     s \<leftarrow> fill_rect img 5 6 6 2 (Literal (238, 198, 118)) s;
     s \<leftarrow> draw_pixel img 6 7 (Named ''wood_med'') s;
     s \<leftarrow> draw_pixel img 9 7 (Named ''wood_med'') s;
     Some (img, s)
   }"

definition item_drink :: "world \<Rightarrow> (ref \<times> world) option" where
  "item_drink s = do {
     let (img, s) = new_image s;
     s \<leftarrow> fill_rect img 4 4 8 10 (Named ''wood_med'') s;
     s \<leftarrow> fill_rect img 5 5 6 8 (Named ''ale'') s;
     s \<leftarrow> fill_rect img 12 6 2 6 (Named ''wood_dark'') s;
     s \<leftarrow> fill_rect img 13 7 1 4 (Named ''wood_dark'') s;
     s \<leftarrow> fill_rect img 5 4 6 2 (Named ''white'') s;
     Some (img, s)
   }"

definition item_raw_meat :: "world \<Rightarrow> (ref \<times> world) option" where
  "item_raw_meat s = do {
     let (img, s) = new_image s;
     s \<leftarrow> fill_rect img 3 5 10 8 (Named ''meat_red'') s;
     s \<leftarrow> fill_rect img 4 4 8 2 (Named ''meat_red'') s;
     s \<leftarrow> fill_rect img 5 7 3 2 (Named ''white'') s;
     s \<leftarrow> fill_rect img 9 9 2 2 (Named ''white'') s;
     s \<leftarrow> fill_rect img 3 11 10 2 (Named ''meat_dark'') s;
     Some (img, s)
   }"

definition item_plant :: "world \<Rightarrow> (ref \<times> world) option" where
  "item_plant s = do {
     let (img, s) = new_image s;
     s \<leftarrow> fill_rect img 7 6 2 10 (Named ''shrub'') s;
     s \<leftarrow> fill_rect img 4 4 3 4 (Named ''plant_green'') s;
     s \<leftarrow> fill_rect img 9 3 4 3 (Named ''plant_green'') s;
     s \<leftarrow> fill_rect img 5 8 3 3 (Named ''plant_green'') s;
     s \<leftarrow> fill_rect img 10 7 3 3 (Named ''plant_green'') s;
     Some (img, s)
   }"

definition item_bed :: "world \<Rightarrow> (ref \<times> world) option" where
  "item_bed s = do {
     let (img, s) = new_image s;
     s \<leftarrow> fill_rect img 1 10 14 4 (Named ''wood_dark'') s;
     s \<leftarrow> fill_rect img 2 6 12 5 (Named ''fabric_red'') s;
     s \<leftarrow> fill_rect img 2 4 4 3 (Named ''white'') s;
     s \<leftarrow> fill_rect img 2 8 12 1 (Literal (148, 48, 48)) s;
     Some (img, s)
   }"

definition item_table :: "world \<Rightarrow> (ref \<times> world) option" where
  "item_table s = do {
     let (img, s) = new_image s;
     s \<leftarrow> fill_rect img 1 5 14 3 (Named ''wood_med'') s;
     s \<leftarrow> fill_rect img 0 5 16 1 (Named ''wood_light'') s;
     s \<leftarrow> fill_rect img 2 8 2 8 (Named ''wood_dark'') s;
     s \<leftarrow> fill_rect img 12 8 2 8 (Named ''wood_dark'') s;
     Some (img, s)
   }"

definition item_chair :: "world \<Rightarrow> (ref \<times> world) option" where
  "item_chair s = do {
     let (img, s) = new_image s;
     s \<leftarrow> fill_rect img 5 2 6 7 (Named ''wood_med'') s;
     s \<leftarrow> fill_rect img 6 3 4 5 (Named ''wood_light'') s;
     s \<leftarrow> fill_rect img 4 9 8 2 (Named ''wood_med'') s;
     s \<leftarrow> fill_rect img 4 11 2 5 (Named ''wood_dark'') s;
     s \<leftarrow> fill_rect img 10 11 2 5 (Named ''wood_dark'') s;
     Some (img, s)
   }"

definition item_door :: "world \<Rightarrow> (ref \<times> world) option" where
  "item_door s = do {
     let (img, s) = new_image s;
     s \<leftarrow> fill_rect img 2 0 12 16 (Named ''wood_dark'') s;
     s \<leftarrow> fill_rect img 3 1 10 6 (Named ''wood_med'') s;
     s \<leftarrow> fill_rect img 3 9 10 6 (Named ''wood_med'') s;
     s \<leftarrow> fill_rect img 10 8 2 2 (Named ''metal_light'') s;
     s \<leftarrow> fill_rect img 3 3 1 2 (Named ''metal_dark'') s;
     s \<leftarrow> fill_rect img 3 11 1 2 (Named ''metal_dark'') s;
     Some (img, s)
   }"

definition item_barrel :: "world \<Rightarrow> (ref \<times> world) option" where
  "item_barrel s = do {
     let (img, s) = new_image s;
     s \<leftarrow> fill_rect img 3 2 10 12 (Named ''wood_med'') s;
     s \<leftarrow> fill_rect img 4 1 8 2 (Named ''wood_med'') s;
     s \<leftarrow> fill_rect img 4 13 8 2 (Named ''wood_med'') s;
     s \<leftarrow> fill_rect img 3 4 10 1 (Named ''metal_dark'') s;
     s \<leftarrow> fill_rect img 3 11 10 1 (Named ''metal_dark'') s;
     s \<leftarrow> for_each [5, 8, 11] (\<lambda>x.
            fill_rect img x 2 1 12 (Named ''wood_dark'')) s;
     Some (img, s)
   }"

definition item_bin :: "world \<Rightarrow> (ref \<times> world) option" where
  "item_bin s = do {
     let (img, s) = new_image s;
     s \<leftarrow> fill_rect img 2 5 12 9 (Named ''wood_med'') s;
     s \<leftarrow> fill_rect img 3 6 10 7 (Named ''wood_dark'') s;
     s \<leftarrow> fill_rect img 1 4 14 2 (Named ''wood_light'') s;
     Some (img, s)
   }"

definition item_pickaxe :: "world \<Rightarrow> (ref \<times> world) option" where
  "item_pickaxe s = do {
     let (img, s) = new_image s;
     s \<leftarrow> fill_rect img 2 3 2 12 (Named ''wood_dark'') s;
     s \<leftarrow> fill_rect img 4 2 10 3 (Named ''metal_light'') s;
     s \<leftarrow> fill_rect img 12 1 3 2 (Named ''metal_light'') s;
     s \<leftarrow> fill_rect img 12 4 3 2 (Named ''metal_light'') s;
     s \<leftarrow> draw_pixel img 14 1 (Named ''white'') s;
     s \<leftarrow> draw_pixel img 14 5 (Named ''white'') s;
     Some (img, s)
   }"

definition item_axe :: "world \<Rightarrow> (ref \<times> world) option" where
  "item_axe s = do {
     let (img, s) = new_image s;
     s \<leftarrow> fill_rect img 3 3 2 12 (Named ''wood_dark'') s;
     s \<leftarrow> fill_rect img 5 2 6 6 (Named ''metal_light'') s;
     s \<leftarrow> fill_rect img 9 3 4 4 (Named ''metal_light'') s;
     s \<leftarrow> fill_rect img 11 3 2 4 (Named ''metal_dark'') s;
     s \<leftarrow> draw_pixel img 12 4 (Named ''white'') s;
     s \<leftarrow> draw_pixel img 12 5 (Named ''white'') s;
     Some (img, s)
   }"

definition item_log :: "world \<Rightarrow> (ref \<times> world) option" where
  "item_log s = do {
     let (img, s) = new_image s;
     s \<leftarrow> fill_rect img 1 5 14 7 (Named ''wood_med'') s;
     s \<leftarrow> fill_rect img 1 5 14 2 (Named ''bark'') s;
     s \<leftarrow> fill_rect img 1 10 14 2 (Named ''bark'') s;
     s \<leftarrow> fill_rect img 13 6 2 5 (Named ''wood_light'') s;
     s \<leftarrow> draw_pixel img 14 8 (Named ''wood_dark'') s;
     Some (img, s)
   }"

definition item_stone :: "world \<Rightarrow> (ref \<times> world) option" where
  "item_stone s = do {
     let (img, s) = new_image s;
     s \<leftarrow> fill_rect img 3 5 10 8 (Named ''stone_med'') s;
     s \<leftarrow> fill_rect img 4 4 8 2 (Named ''stone_med'') s;
     s \<leftarrow> fill_rect img 5 12 6 2 (Named ''stone_med'') s;
     s \<leftarrow> fill_rect img 5 6 4 3 (Named ''stone_light'') s;
     s \<leftarrow> fill_rect img 9 9 3 3 (Named ''stone_dark'') s;
     Some (img, s)
   }"

definition item_ore :: "world \<Rightarrow> (ref \<times> world) option" where
  "item_ore s = do {
     let (img, s) = new_image s;
     s \<leftarrow> fill_rect img 3 5 10 8 (Named ''stone_dark'') s;
     s \<leftarrow> fill_rect img 4 4 8 2 (Named ''stone_dark'') s;
     s \<leftarrow> fill_rect img 5 6 3 3 (Named ''gold'') s;
     s \<leftarrow> fill_rect img 9 8 3 3 (Named ''gold'') s;
     s \<leftarrow> draw_pixel img 6 7 (Named ''white'') s;
     s \<leftarrow> draw_pixel img 10 9 (Named ''white'') s;
     Some (img, s)
   }"


section \<open>UI sprites\<close>

text \<open>\<open>COLORS['select_yellow']\<close> is a lookup of its own: a missing key raises at once.\<close>

definition ui_selection :: "world \<Rightarrow> (ref \<times> world) option" where
  "ui_selection s = do {
     let (img, s) = new_image s;
     c \<leftarrow> COLORS ''select_yellow'';
     s \<leftarrow> for_each (py_range 0 4) (\<lambda>i s. do {
            s \<leftarrow> draw_pixel img i 0 (Literal c) s;
            draw_pixel img 0 i (Literal c) s
          }) s;
     s \<leftarrow> for_each (py_range 0 4) (\<lambda>i s. do {
            s \<leftarrow> draw_pixel img (15 - i) 0 (Literal c) s;
            draw_pixel img 15 i (Literal c) s
          }) s;
     s \<leftarrow> for_each (py_range 0 4) (\<lambda>i s. do {
            s \<leftarrow> draw_pixel img i 15 (Literal c) s;
            draw_pixel img 0 (15 - i) (Literal c) s
          }) s;
     s \<leftarrow> for_each (py_range 0 4) (\<lambda>i s. do {
            s \<leftarrow> draw_pixel img (15 - i) 15 (Literal c) s;
            draw_pixel img 15 (15 - i) (Literal c) s
          }) s;
     Some (img, s)
   }"


section \<open>The asset emitter, the scaffolding and the driver\<close>

definition create_imageset :: "string \<Rightarrow> string \<Rightarrow> ref \<Rightarrow> world \<Rightarrow> world option" where
  "create_imageset name category img s = do {
     let folder_path = os_path_join ASSETS_PATH [category, name @ ''.imageset''];
     s \<leftarrow> os_makedirs folder_path s;
     s \<leftarrow> for_each [1, 2, 3] (\<lambda>scale s. do {
            let scaled_size = TILE_SIZE * scale;
            (scaled_img, s) \<leftarrow> resize_nearest img (scaled_size, scaled_size) s;
            let suffix = (if scale = 1 then '''' else ''@'' @ str scale @ ''x'');
            save scaled_img (os_path_join folder_path [name @ suffix @ ''.png'']) s
          }) s;
     let contents = JDict [
           (''images'', JList [
              JDict [(''filename'', JString (name @ ''.png'')),
                     (''idiom'', JString ''universal''), (''scale'', JString ''1x'')],
              JDict [(''filename'', JString (name @ ''@2x.png'')),
                     (''idiom'', JString ''universal''), (''scale'', JString ''2x'')],
              JDict [(''filename'', JString (name @ ''@3x.png'')),
                     (''idiom'', JString ''universal''), (''scale'', JString ''3x'')]]),
           (''info'', JDict [(''author'', JString ''xcode''), (''version'', JInt 1)])];
     json_dump_to (os_path_join folder_path [''Contents.json'']) contents s
   }"

definition create_folder_contents :: "string \<Rightarrow> world \<Rightarrow> world option" where
  "create_folder_contents path s = do {
     let contents = JDict [
           (''info'', JDict [(''author'', JString ''xcode''), (''version'', JInt 1)]),
           (''properties'', JDict [(''provides-namespace'', JBool True)])];
     json_dump_to (os_path_join path [''Contents.json'']) contents s
   }"

text \<open>
  The three dictionaries of \<open>main\<close>, in the order in which their entries are written:
  a dictionary is iterated in insertion order.
\<close>

definition terrain_sprites :: "(string \<times> (world \<Rightarrow> (ref \<times> world) option)) list" where
  "terrain_sprites = [
     (''terrain_empty_air'', terrain_empty_air),
     (''terrain_grass'', terrain_grass),
     (''terrain_dirt'', terrain_dirt),
     (''terrain_stone'', terrain_stone),
     (''terrain_water'', terrain_water),
     (''terrain_tree'', terrain_tree),
     (''terrain_shrub'', terrain_shrub),
     (''terrain_wall'', terrain_wall),
     (''terrain_ore'', terrain_ore),
     (''terrain_wooden_floor'', terrain_wooden_floor),
     (''terrain_stone_floor'', terrain_stone_floor),
     (''terrain_constructed_wall'', terrain_constructed_wall),
     (''terrain_stairs_up'', terrain_stairs_up),
     (''terrain_stairs_down'', terrain_stairs_down),
     (''terrain_stairs_updown'', terrain_stairs_updown),
     (''terrain_ramp_up'', terrain_ramp_up),
     (''terrain_ramp_down'', terrain_ramp_down)]"

definition creature_sprites :: "(string \<times> (world \<Rightarrow> (ref \<times> world) option)) list" where
  "creature_sprites = [
     (''creature_dwarf'', creature_dwarf),
     (''creature_goblin'', creature_goblin),
     (''creature_wolf'', creature_wolf),
     (''creature_bear'', creature_bear),
     (''creature_giant'', creature_giant),
     (''creature_undead'', creature_undead)]"

definition item_sprites :: "(string \<times> (world \<Rightarrow> (ref \<times> world) option)) list" where
  "item_sprites = [
     (''item_food'', item_food),
     (''item_drink'', item_drink),
     (''item_raw_meat'', item_raw_meat),
     (''item_plant'', item_plant),
     (''item_bed'', item_bed),
     (''item_table'', item_table),
     (''item_chair'', item_chair),
     (''item_door'', item_door),
     (''item_barrel'', item_barrel),
     (''item_bin'', item_bin),
     (''item_pickaxe'', item_pickaxe),
     (''item_axe'', item_axe),
     (''item_log'', item_log),
     (''item_stone'', item_stone),
     (''item_ore'', item_ore)]"

definition main :: "world \<Rightarrow> world option" where
  "main s = do {
     s \<leftarrow> for_each [''Terrain'', ''Creatures'', ''Items'', ''UI''] (\<lambda>category s. do {
            let path = os_path_join ASSETS_PATH [category];
            s \<leftarrow> os_makedirs path s;
            create_folder_contents path s
          }) s;
     s \<leftarrow> for_each terrain_sprites (\<lambda>(name, func) s. do {
            s \<leftarrow> py_print (''Generating '' @ name @ ''...'') s;
            (img, s) \<leftarrow> func s;
            create_imageset name ''Terrain'' img s
          }) s;
     s \<leftarrow> for_each creature_sprites (\<lambda>(name, func) s. do {
            s \<leftarrow> py_print (''Generating '' @ name @ ''...'') s;
            (img, s) \<leftarrow> func s;
            create_imageset name ''Creatures'' img s
          }) s;
     s \<leftarrow> for_each item_sprites (\<lambda>(name, func) s. do {
            s \<leftarrow> py_print (''Generating '' @ name @ ''...'') s;
            (img, s) \<leftarrow> func s;
            create_imageset name ''Items'' img s
          }) s;
     s \<leftarrow> py_print ''Generating ui_selection...'' s;
     (img, s) \<leftarrow> ui_selection s;
     s \<leftarrow> create_imageset ''ui_selection'' ''UI'' img s;
     py_print (CHR 0x0A # ''Done! Generated all sprites in Assets.xcassets'') s
   }"


section \<open>Notions used to state the properties\<close>

definition empty_world :: world where
  "empty_world = \<lparr>images = [], trace = []\<rparr>"

text \<open>The image a drawer hands back: what its reference points to in the world it returns.\<close>

definition returned :: "(ref \<times> world) option \<Rightarrow> image option" where
  "returned res = map_option (\<lambda>(img, s). images s ! img) res"

definition pixel_at :: "image option \<Rightarrow> nat \<times> nat \<Rightarrow> rgba option" where
  "pixel_at im xy = map_option (\<lambda>c. getpixel c xy) im"

text \<open>A canvas is an image of 16 rows of 16 pixels, as \<open>new_image\<close> creates it.\<close>

definition is_canvas :: "image \<Rightarrow> bool" where
  "is_canvas im \<longleftrightarrow> length im = 16 \<and> (\<forall>row \<in> set im. length row = 16)"

text \<open>The triple a \<open>color\<close> argument stands for, when it stands for one.\<close>

definition resolve :: "color \<Rightarrow> rgb option" where
  "resolve color = (case color of Named name \<Rightarrow> COLORS name | Literal c \<Rightarrow> Some c)"

fun alpha :: "rgba \<Rightarrow> u8" where
  "alpha (r, g, b, a) = a"

definition opaque_or_clear :: "image \<Rightarrow> bool" where
  "opaque_or_clear im \<longleftrightarrow>
     (\<forall>row \<in> set im. \<forall>p \<in> set row. p = (0, 0, 0, 0) \<or> alpha p = 255)"

definition transparent_count :: "image \<Rightarrow> nat" where
  "transparent_count im = length (filter (\<lambda>p. p = (0, 0, 0, 0)) (concat im))"

definition opaque_count :: "image \<Rightarrow> nat" where
  "opaque_count im = length (filter (\<lambda>p. alpha p = 255) (concat im))"

text \<open>The images that a stretch of the trace saves to files, in the order of the saving.\<close>

fun saved_images :: "event list \<Rightarrow> image list" where
  "saved_images [] = []"
| "saved_images (Save path im # es) = im # saved_images es"
| "saved_images (e # es) = saved_images es"

text \<open>The 39 drawers, in the order in which \<open>main\<close> calls them.\<close>

definition sprite_drawers :: "(world \<Rightarrow> (ref \<times> world) option) list" where
  "sprite_drawers =
     map snd terrain_sprites @ map snd creature_sprites @ map snd item_sprites @ [ui_selection]"

text \<open>The cells that the two loops of \<open>fill_rect\<close> visit, in the order of the visit.\<close>

definition rect_cells :: "int \<Rightarrow> int \<Rightarrow> int \<Rightarrow> int \<Rightarrow> (int \<times> int) list" where
  "rect_cells x y w h =
     concat (map (\<lambda>py. map (\<lambda>px. (px, py)) (py_range x (x + w))) (py_range y (y + h)))"

subsection \<open>What a statement does to the image it draws on\<close>

text \<open>
  The effect of \<open>draw_pixel\<close> and of \<open>fill_rect\<close> on a canvas, as functions on images,
  and the predicates that tie a piece of a drawer to its effect: \<open>acts m f\<close> says that
  the statement \<open>m\<close>, run on a reference to a canvas, succeeds and changes nothing but
  that canvas, by \<open>f\<close>; \<open>draws d c\<close> says that the drawer \<open>d\<close> succeeds in every
  world and adds the one image \<open>c\<close> to it.
\<close>

definition paint :: "image \<Rightarrow> int \<Rightarrow> int \<Rightarrow> rgba \<Rightarrow> image" where
  "paint im x y v =
     (if 0 \<le> x \<and> x < 16 \<and> 0 \<le> y \<and> y < 16 then im[nat y := (im ! nat y)[nat x := v]]
      else im)"

definition paint_rect :: "image \<Rightarrow> int \<Rightarrow> int \<Rightarrow> int \<Rightarrow> int \<Rightarrow> rgba \<Rightarrow> image" where
  "paint_rect im x y w h v =
     fold (\<lambda>py. fold (\<lambda>px im. paint im px py v) (py_range x (x + w))) (py_range y (y + h)) im"

definition on_image :: "ref \<Rightarrow> (image \<Rightarrow> image) \<Rightarrow> world \<Rightarrow> world" where
  "on_image r f s = s\<lparr>images := (images s)[r := f (images s ! r)]\<rparr>"

definition good :: "(image \<Rightarrow> image) \<Rightarrow> bool" where
  "good f \<longleftrightarrow> (\<forall>im. is_canvas im \<longrightarrow> is_canvas (f im))
     \<and> (\<forall>im. opaque_or_clear im \<longrightarrow> opaque_or_clear (f im))"

definition acts :: "(ref \<Rightarrow> world \<Rightarrow> world option) \<Rightarrow> (image \<Rightarrow> image) \<Rightarrow> bool" where
  "acts m f \<longleftrightarrow> good f \<and>
     (\<forall>r s. r < length (images s) \<longrightarrow> is_canvas (images s ! r) \<longrightarrow>
        m r s = Some (on_image r f s))"

definition finishes ::
  "(ref \<Rightarrow> world \<Rightarrow> (ref \<times> world) option) \<Rightarrow> (image \<Rightarrow> image) \<Rightarrow> bool" where
  "finishes k f \<longleftrightarrow> good f \<and>
     (\<forall>r s. r < length (images s) \<longrightarrow> is_canvas (images s ! r) \<longrightarrow>
        k r s = Some (r, on_image r f s))"

definition blank :: image where
  "blank = replicate 16 (replicate 16 (0, 0, 0, 0))"

definition draws :: "(world \<Rightarrow> (ref \<times> world) option) \<Rightarrow> image \<Rightarrow> bool" where
  "draws d c \<longleftrightarrow> is_canvas c \<and> opaque_or_clear c \<and>
     (\<forall>s. d s = Some (length (images s), s\<lparr>images := images s @ [c]\<rparr>))"

text \<open>The canvas of a drawer: the image it returns when run in the empty world.\<close>

definition canvas_of :: "(world \<Rightarrow> (ref \<times> world) option) \<Rightarrow> image" where
  "canvas_of d = (case returned (d empty_world) of Some c \<Rightarrow> c | None \<Rightarrow> [])"

subsection \<open>The trace the spec asks for\<close>

text \<open>
  Section 4.5 of the spec, as a trace: the four category directories are scaffolded, then
  every sprite of the three catalogs and the UI sprite is announced and emitted. The
  emitter (section 4.3) makes the sprite's directory, saves the three images and writes
  the descriptor that lists them.
\<close>

definition container_descriptor :: json where
  "container_descriptor = JDict [
     (''info'', JDict [(''author'', JString ''xcode''), (''version'', JInt 1)]),
     (''properties'', JDict [(''provides-namespace'', JBool True)])]"

definition expected_scaffold :: "string \<Rightarrow> event list" where
  "expected_scaffold category =
     [Makedirs (ASSETS_PATH @ ''/'' @ category),
      JsonDump (ASSETS_PATH @ ''/'' @ category @ ''/Contents.json'') container_descriptor]"

definition imageset_folder :: "string \<Rightarrow> string \<Rightarrow> string" where
  "imageset_folder name category = os_path_join ASSETS_PATH [category, name @ ''.imageset'']"

definition imageset_descriptor :: "string \<Rightarrow> json" where
  "imageset_descriptor name = JDict [
     (''images'', JList [
        JDict [(''filename'', JString (name @ ''.png'')),
               (''idiom'', JString ''universal''), (''scale'', JString ''1x'')],
        JDict [(''filename'', JString (name @ ''@2x.png'')),
               (''idiom'', JString ''universal''), (''scale'', JString ''2x'')],
        JDict [(''filename'', JString (name @ ''@3x.png'')),
               (''idiom'', JString ''universal''), (''scale'', JString ''3x'')]]),
     (''info'', JDict [(''author'', JString ''xcode''), (''version'', JInt 1)])]"

definition expected_imageset :: "string \<Rightarrow> string \<Rightarrow> image \<Rightarrow> event list" where
  "expected_imageset name category c =
     [Makedirs (imageset_folder name category),
      Save (os_path_join (imageset_folder name category) [name @ ''.png''])
        (image_resize_nearest c (16, 16)),
      Save (os_path_join (imageset_folder name category) [name @ ''@2x.png''])
        (image_resize_nearest c (32, 32)),
      Save (os_path_join (imageset_folder name category) [name @ ''@3x.png''])
        (image_resize_nearest c (48, 48)),
      JsonDump (os_path_join (imageset_folder name category) [''Contents.json''])
        (imageset_descriptor name)]"

definition expected_sprite ::
  "string \<Rightarrow> string \<times> (world \<Rightarrow> (ref \<times> world) option) \<Rightarrow> event list" where
  "expected_sprite category entry =
     Print (''Generating '' @ fst entry @ ''...'')
     # expected_imageset (fst entry) category (canvas_of (snd entry))"

text \<open>The images a sprite leaves in the store: its canvas, then the three scaled copies.\<close>

definition sprite_images :: "string \<times> (world \<Rightarrow> (ref \<times> world) option) \<Rightarrow> image list" where
  "sprite_images entry =
     [canvas_of (snd entry),
      image_resize_nearest (canvas_of (snd entry)) (16, 16),
      image_resize_nearest (canvas_of (snd entry)) (32, 32),
      image_resize_nearest (canvas_of (snd entry)) (48, 48)]"



section \<open>Canvases and what drawing does to them\<close>

lemma in_set_updD: "p \<in> set (xs[i := v]) \<Longrightarrow> p = v \<or> p \<in> set xs"
  using set_update_subset_insert [of xs i v] by blast

lemma is_canvas_paint: "is_canvas im \<Longrightarrow> is_canvas (paint im x y v)"
  by (auto simp: is_canvas_def paint_def dest!: set_update_subset_insert [THEN subsetD])

lemma opaque_paint:
  assumes "opaque_or_clear im" "alpha v = 255"
  shows "opaque_or_clear (paint im x y v)"
proof (cases "0 \<le> x \<and> x < 16 \<and> 0 \<le> y \<and> y < 16 \<and> nat y < length im")
  case True
  then have row: "im ! nat y \<in> set im" by simp
  have "p = (0, 0, 0, 0) \<or> alpha p = 255"
    if "row \<in> set (im[nat y := (im ! nat y)[nat x := v]])" "p \<in> set row" for row p
  proof -
    from that(1) have "row = (im ! nat y)[nat x := v] \<or> row \<in> set im"
      by (rule in_set_updD)
    then show ?thesis
    proof
      assume "row = (im ! nat y)[nat x := v]"
      with that(2) have "p = v \<or> p \<in> set (im ! nat y)"
        by (blast dest: in_set_updD)
      with assms row show ?thesis by (auto simp: opaque_or_clear_def)
    next
      assume "row \<in> set im"
      with assms that(2) show ?thesis by (auto simp: opaque_or_clear_def)
    qed
  qed
  with True show ?thesis by (auto simp: opaque_or_clear_def paint_def)
next
  case False
  with assms show ?thesis by (auto simp: paint_def not_less list_update_beyond)
qed

lemma image_putpixel_canvas:
  assumes "is_canvas im" "0 \<le> x" "x < 16" "0 \<le> y" "y < 16"
  shows "image_putpixel im (x, y) v = Some (im[nat y := (im ! nat y)[nat x := v]])"
proof -
  from assms have "length im = 16" and "length (im ! nat y) = 16"
    by (auto simp: is_canvas_def)
  with assms show ?thesis
    by (simp add: image_putpixel_def Let_def)
qed

lemma draw_pixel_canvas:
  assumes "r < length (images s)" "is_canvas (images s ! r)" "resolve color = Some c"
  shows "draw_pixel r x y color s = Some (on_image r (\<lambda>im. paint im x y (with_alpha c 255)) s)"
proof (cases "0 \<le> x \<and> x < 16 \<and> 0 \<le> y \<and> y < 16")
  case True
  with assms show ?thesis
    by (simp add: draw_pixel_def TILE_SIZE_def putpixel_def image_putpixel_canvas
        on_image_def paint_def resolve_def)
next
  case False
  then have "draw_pixel r x y color s = Some s"
    by (auto simp: draw_pixel_def TILE_SIZE_def)
  moreover from False have "on_image r (\<lambda>im. paint im x y (with_alpha c 255)) s = s"
    by (auto simp: on_image_def paint_def)
  ultimately show ?thesis by simp
qed

lemma length_on_image [simp]: "length (images (on_image r f s)) = length (images s)"
  by (simp add: on_image_def)

lemma nth_on_image [simp]:
  "r < length (images s) \<Longrightarrow> images (on_image r f s) ! r = f (images s ! r)"
  by (simp add: on_image_def)

lemma on_image_twice:
  "r < length (images s) \<Longrightarrow> on_image r g (on_image r f s) = on_image r (\<lambda>im. g (f im)) s"
  by (simp add: on_image_def)

lemma on_image_id: "on_image r (\<lambda>im. im) s = s"
  by (simp add: on_image_def)

lemma good_id: "good (\<lambda>im. im)"
  by (simp add: good_def)

lemma good_comp: "good f \<Longrightarrow> good g \<Longrightarrow> good (\<lambda>im. g (f im))"
  by (simp add: good_def)

lemma good_paint: "alpha v = 255 \<Longrightarrow> good (\<lambda>im. paint im x y v)"
  by (simp add: good_def is_canvas_paint opaque_paint)

lemma good_fold: "(\<And>x. good (g x)) \<Longrightarrow> good (fold g xs)"
proof (induction xs)
  case Nil
  show ?case by (simp add: good_def)
next
  case (Cons x xs)
  from good_comp [OF Cons.prems [of x] Cons.IH [OF Cons.prems]]
  show ?case by (simp add: good_def)
qed

lemma alpha_with_alpha [simp]: "alpha (with_alpha c a) = a"
  by (cases c) auto

lemma acts_skip: "acts (\<lambda>r s. Some s) (\<lambda>im. im)"
  by (simp add: acts_def good_id on_image_id)

lemma acts_draw_pixel:
  assumes "resolve color \<noteq> None"
  shows "acts (\<lambda>r. draw_pixel r x y color)
           (\<lambda>im. paint im x y (with_alpha (the (resolve color)) 255))"
proof -
  from assms obtain c where c: "resolve color = Some c" by auto
  have "good (\<lambda>im. paint im x y (with_alpha c 255))"
    by (rule good_paint) simp
  with c show ?thesis
    by (simp add: acts_def draw_pixel_canvas)
qed

lemma acts_bind:
  assumes "acts m f" "acts k g"
  shows "acts (\<lambda>r s. m r s \<bind> k r) (\<lambda>im. g (f im))"
proof -
  have "m r s \<bind> k r = Some (on_image r (\<lambda>im. g (f im)) s)"
    if "r < length (images s)" "is_canvas (images s ! r)" for r s
  proof -
    from assms(1) that have "is_canvas (images (on_image r f s) ! r)"
      by (simp add: acts_def good_def)
    with that assms show ?thesis
      by (simp add: acts_def on_image_twice)
  qed
  with assms good_comp [of f g] show ?thesis
    by (simp add: acts_def)
qed

lemma acts_if:
  "acts m f \<Longrightarrow> acts n g \<Longrightarrow>
   acts (\<lambda>r s. if b then m r s else n r s) (\<lambda>im. if b then f im else g im)"
  by (cases b) (simp_all add: acts_def)

lemma acts_for_each:
  assumes "\<And>x. acts (\<lambda>r. body r x) (g x)"
  shows "acts (\<lambda>r. for_each xs (body r)) (fold g xs)"
proof (induction xs)
  case Nil
  show ?case using acts_skip by (simp add: acts_def)
next
  case (Cons x xs)
  from acts_bind [OF assms [of x] Cons]
  show ?case by (simp add: acts_def)
qed

lemma acts_case_prod:
  "(\<And>a b. acts (\<lambda>r. m r a b) (f a b)) \<Longrightarrow> acts (\<lambda>r. case_prod (m r) p) (case_prod f p)"
  by (cases p) simp

lemma acts_fill_rect:
  assumes "resolve color \<noteq> None"
  shows "acts (\<lambda>r. fill_rect r x y w h color)
           (\<lambda>im. paint_rect im x y w h (with_alpha (the (resolve color)) 255))"
proof -
  have "acts (\<lambda>r. fill_rect r x y w h color)
          (fold (\<lambda>py. fold (\<lambda>px im. paint im px py (with_alpha (the (resolve color)) 255))
                   (py_range x (x + w))) (py_range y (y + h)))"
    unfolding fill_rect_def
    by (intro acts_for_each acts_draw_pixel assms)
  then show ?thesis
    by (simp add: paint_rect_def [abs_def])
qed

lemma finishes_return: "finishes (\<lambda>r s. Some (r, s)) (\<lambda>im. im)"
  by (simp add: finishes_def good_id on_image_id)

lemma finishes_bind:
  assumes "acts m f" "finishes k g"
  shows "finishes (\<lambda>r s. m r s \<bind> k r) (\<lambda>im. g (f im))"
proof -
  have "m r s \<bind> k r = Some (r, on_image r (\<lambda>im. g (f im)) s)"
    if "r < length (images s)" "is_canvas (images s ! r)" for r s
  proof -
    from assms(1) that have "is_canvas (images (on_image r f s) ! r)"
      by (simp add: acts_def good_def)
    with that assms show ?thesis
      by (simp add: acts_def finishes_def on_image_twice)
  qed
  with assms good_comp [of f g] show ?thesis
    by (simp add: acts_def finishes_def)
qed

lemma is_canvas_blank: "is_canvas blank"
  by (simp add: is_canvas_def blank_def)

lemma opaque_or_clear_blank: "opaque_or_clear blank"
  by (simp add: opaque_or_clear_def blank_def)

lemma drawsI:
  assumes d: "\<And>s. d s = (case new_image s of (img, s') \<Rightarrow> k img s')"
    and k: "finishes k f"
  shows "draws d (f blank)"
proof -
  have "d s = Some (length (images s), s\<lparr>images := images s @ [f blank]\<rparr>)" for s
    using k is_canvas_blank
    by (simp add: d new_image_def Image_new_def TILE_SIZE_def finishes_def on_image_def
        blank_def)
  moreover from k have "is_canvas (f blank)" "opaque_or_clear (f blank)"
    by (simp_all add: finishes_def good_def is_canvas_blank opaque_or_clear_blank)
  ultimately show ?thesis
    by (simp add: draws_def)
qed

lemmas acts_intros =
  acts_bind acts_if acts_skip acts_for_each acts_case_prod
  acts_draw_pixel acts_fill_rect finishes_bind finishes_return

lemma getpixel_paint:
  assumes "is_canvas im" "px < 16" "py < 16"
  shows "getpixel (paint im x y v) (px, py) =
           (if int px = x \<and> int py = y then v else getpixel im (px, py))"
proof -
  from assms have "length im = 16" "length (im ! nat y) = 16" if "0 \<le> y" "y < 16"
    using that by (auto simp: is_canvas_def)
  with assms show ?thesis
    by (auto simp: paint_def getpixel_def nth_list_update)
qed

lemma is_canvas_fold:
  "(\<And>x im. is_canvas im \<Longrightarrow> is_canvas (g x im)) \<Longrightarrow> is_canvas im \<Longrightarrow> is_canvas (fold g xs im)"
  by (induction xs arbitrary: im) simp_all

lemma is_canvas_paint_rect: "is_canvas im \<Longrightarrow> is_canvas (paint_rect im x y w h v)"
  unfolding paint_rect_def
  by (intro is_canvas_fold is_canvas_paint)

lemma getpixel_fold_row:
  assumes "px < 16" "py < 16"
  shows "is_canvas im \<Longrightarrow> getpixel (fold (\<lambda>qx im. paint im qx qy v) xs im) (px, py) =
           (if int px \<in> set xs \<and> int py = qy then v else getpixel im (px, py))"
proof (induction xs arbitrary: im)
  case Nil
  show ?case by simp
next
  case (Cons x xs)
  from Cons.prems have c: "is_canvas (paint im x qy v)"
    by (rule is_canvas_paint)
  have "getpixel (fold (\<lambda>qx im. paint im qx qy v) (x # xs) im) (px, py) =
        getpixel (fold (\<lambda>qx im. paint im qx qy v) xs (paint im x qy v)) (px, py)"
    by simp
  also have "\<dots> = (if int px \<in> set xs \<and> int py = qy then v
                  else getpixel (paint im x qy v) (px, py))"
    by (rule Cons.IH [OF c])
  also have "getpixel (paint im x qy v) (px, py) =
        (if int px = x \<and> int py = qy then v else getpixel im (px, py))"
    by (rule getpixel_paint [OF Cons.prems assms])
  finally show ?case by auto
qed

lemma getpixel_fold_rect:
  assumes "px < 16" "py < 16"
  shows "is_canvas im \<Longrightarrow>
         getpixel (fold (\<lambda>qy. fold (\<lambda>qx im. paint im qx qy v) xs) ys im) (px, py) =
           (if int px \<in> set xs \<and> int py \<in> set ys then v else getpixel im (px, py))"
proof (induction ys arbitrary: im)
  case Nil
  show ?case by simp
next
  case (Cons y ys)
  let ?row = "fold (\<lambda>qx im. paint im qx y v) xs im"
  from Cons.prems have c: "is_canvas ?row"
    by (intro is_canvas_fold is_canvas_paint)
  have "getpixel (fold (\<lambda>qy. fold (\<lambda>qx im. paint im qx qy v) xs) (y # ys) im) (px, py) =
        getpixel (fold (\<lambda>qy. fold (\<lambda>qx im. paint im qx qy v) xs) ys ?row) (px, py)"
    by simp
  also have "\<dots> = (if int px \<in> set xs \<and> int py \<in> set ys then v else getpixel ?row (px, py))"
    by (rule Cons.IH [OF c])
  also have "getpixel ?row (px, py) =
        (if int px \<in> set xs \<and> int py = y then v else getpixel im (px, py))"
    by (rule getpixel_fold_row [OF assms Cons.prems])
  finally show ?case by auto
qed

lemma mem_py_range: "i \<in> set (py_range a b) \<longleftrightarrow> a \<le> i \<and> i < b"
proof
  assume "i \<in> set (py_range a b)"
  then obtain k where "k < nat (b - a)" "i = a + int k"
    unfolding py_range_def by auto
  then show "a \<le> i \<and> i < b" by linarith
next
  assume "a \<le> i \<and> i < b"
  then have "nat (i - a) < nat (b - a)" and "i = a + int (nat (i - a))" by linarith+
  then have "i \<in> (\<lambda>k. a + int k) ` {0..<nat (b - a)}"
    by (intro image_eqI [where x = "nat (i - a)"]) simp_all
  then show "i \<in> set (py_range a b)"
    unfolding py_range_def by simp
qed

lemma getpixel_paint_rect:
  assumes "is_canvas im" "px < 16" "py < 16"
  shows "getpixel (paint_rect im x y w h v) (px, py) =
           (if x \<le> int px \<and> int px < x + w \<and> y \<le> int py \<and> int py < y + h then v
            else getpixel im (px, py))"
  unfolding paint_rect_def getpixel_fold_rect [OF assms(2,3,1)] mem_py_range
  by (simp only: conj_assoc)

lemma str_2: "str 2 = ''2''"
  by code_simp

lemma str_3: "str 3 = ''3''"
  by code_simp

lemma COLORS_values:
  "COLORS ''grass_light'' = Some (98, 168, 68)"
  "COLORS ''grass_dark'' = Some (68, 138, 48)"
  "COLORS ''tree_dark'' = Some (34, 82, 34)"
  "COLORS ''tree_light'' = Some (54, 112, 54)"
  "COLORS ''shrub'' = Some (78, 128, 58)"
  "COLORS ''plant_green'' = Some (88, 178, 88)"
  "COLORS ''dirt_light'' = Some (158, 118, 78)"
  "COLORS ''dirt_dark'' = Some (128, 88, 58)"
  "COLORS ''wood_light'' = Some (168, 128, 88)"
  "COLORS ''wood_med'' = Some (138, 98, 58)"
  "COLORS ''wood_dark'' = Some (108, 78, 48)"
  "COLORS ''bark'' = Some (88, 58, 38)"
  "COLORS ''stone_light'' = Some (148, 148, 148)"
  "COLORS ''stone_med'' = Some (118, 118, 118)"
  "COLORS ''stone_dark'' = Some (88, 88, 88)"
  "COLORS ''wall_dark'' = Some (68, 68, 68)"
  "COLORS ''water_light'' = Some (88, 148, 218)"
  "COLORS ''water_dark'' = Some (58, 118, 188)"
  "COLORS ''water_deep'' = Some (38, 88, 158)"
  "COLORS ''metal_light'' = Some (178, 178, 188)"
  "COLORS ''metal_dark'' = Some (128, 128, 138)"
  "COLORS ''gold'' = Some (218, 178, 58)"
  "COLORS ''gold_dark'' = Some (178, 138, 38)"
  "COLORS ''skin'' = Some (218, 178, 138)"
  "COLORS ''skin_dark'' = Some (188, 148, 108)"
  "COLORS ''beard_brown'' = Some (98, 68, 48)"
  "COLORS ''goblin_green'' = Some (88, 138, 68)"
  "COLORS ''goblin_dark'' = Some (58, 108, 48)"
  "COLORS ''wolf_gray'' = Some (128, 128, 128)"
  "COLORS ''wolf_dark'' = Some (88, 88, 88)"
  "COLORS ''bear_brown'' = Some (118, 78, 48)"
  "COLORS ''bear_dark'' = Some (88, 58, 38)"
  "COLORS ''giant_purple'' = Some (138, 108, 148)"
  "COLORS ''undead_pale'' = Some (158, 178, 158)"
  "COLORS ''undead_dark'' = Some (108, 128, 108)"
  "COLORS ''bread'' = Some (218, 178, 98)"
  "COLORS ''meat_red'' = Some (198, 78, 78)"
  "COLORS ''meat_dark'' = Some (158, 58, 58)"
  "COLORS ''ale'' = Some (168, 118, 48)"
  "COLORS ''fabric_red'' = Some (178, 68, 68)"
  "COLORS ''fabric_blue'' = Some (68, 98, 158)"
  "COLORS ''select_yellow'' = Some (255, 238, 68)"
  "COLORS ''select_orange'' = Some (255, 178, 38)"
  "COLORS ''empty'' = Some (28, 28, 38)"
  "COLORS ''black'' = Some (0, 0, 0)"
  "COLORS ''white'' = Some (255, 255, 255)"
  by (simp_all add: COLORS_def)

lemma resolve_Named: "resolve (Named name) = COLORS name"
  by (simp add: resolve_def)

lemma resolve_Literal: "resolve (Literal c) = Some c"
  by (simp add: resolve_def)

lemmas resolve_simps = resolve_Named resolve_Literal COLORS_values

lemma str_2': "str 2 = ''2''" by code_simp

lemma create_imageset_eq:
  assumes "img < length (images s)"
  shows "create_imageset name category img s =
    Some (s\<lparr>images := images s @
                [image_resize_nearest (images s ! img) (16, 16),
                 image_resize_nearest (images s ! img) (32, 32),
                 image_resize_nearest (images s ! img) (48, 48)],
            trace := trace s @
                [Makedirs (imageset_folder name category),
                 Save (os_path_join (imageset_folder name category) [name @ ''.png''])
                   (image_resize_nearest (images s ! img) (16, 16)),
                 Save (os_path_join (imageset_folder name category) [name @ ''@2x.png''])
                   (image_resize_nearest (images s ! img) (32, 32)),
                 Save (os_path_join (imageset_folder name category) [name @ ''@3x.png''])
                   (image_resize_nearest (images s ! img) (48, 48)),
                 JsonDump (os_path_join (imageset_folder name category) [''Contents.json''])
                   (imageset_descriptor name)]\<rparr>)"
  using assms
  by (simp add: create_imageset_def Let_def os_makedirs_def resize_nearest_def save_def
      json_dump_to_def TILE_SIZE_def str_2 str_3 imageset_folder_def imageset_descriptor_def
      nth_append del: os_path_join.simps)

lemma div_centre:
  assumes "0 < k"
  shows "(16 + 32 * X) div (32 * k) = X div (k::nat)"
proof -
  have "(16 + 32 * X) div (32 * k) = (16 * (2 * X + 1)) div (16 * (2 * k))"
    by simp
  also have "\<dots> = (2 * X + 1) div (2 * k)"
    by (rule div_mult_mult1) simp
  also have "\<dots> = ((2 * X + 1) div 2) div k"
    by (simp add: div_mult2_eq)
  also have "(2 * X + 1) div 2 = X"
    by simp
  finally show ?thesis .
qed

lemma is_canvas_hd:
  assumes "is_canvas c"
  shows "c \<noteq> []" "length c = 16" "length (hd c) = 16"
proof -
  from assms show "length c = 16" by (simp add: is_canvas_def)
  then show "c \<noteq> []" by auto
  then have "hd c \<in> set c" by simp
  with assms show "length (hd c) = 16" by (simp add: is_canvas_def)
qed

lemma getpixel_resize:
  assumes "is_canvas c" "0 < k" "X < 16 * k" "Y < 16 * k"
  shows "getpixel (image_resize_nearest c (16 * k, 16 * k)) (X, Y) = getpixel c (X div k, Y div k)"
proof -
  note c = is_canvas_hd [OF assms(1)]
  with assms(2-) show ?thesis
    by (simp add: image_resize_nearest_def getpixel_def Let_def div_centre)
qed

lemma resize_same:
  assumes "is_canvas c"
  shows "image_resize_nearest c (16, 16) = c"
proof (rule nth_equalityI)
  note c = is_canvas_hd [OF assms]
  from c show len: "length (image_resize_nearest c (16, 16)) = length c"
    by (simp add: image_resize_nearest_def)
  fix Y assume "Y < length (image_resize_nearest c (16, 16))"
  with len c have Y: "Y < 16" by simp
  with assms c have row: "length (c ! Y) = 16"
    by (simp add: is_canvas_def)
  show "image_resize_nearest c (16, 16) ! Y = c ! Y"
  proof (rule nth_equalityI)
    from Y c row show "length (image_resize_nearest c (16, 16) ! Y) = length (c ! Y)"
      by (simp add: image_resize_nearest_def)
    fix X assume "X < length (image_resize_nearest c (16, 16) ! Y)"
    with Y c have X: "X < 16" by (simp add: image_resize_nearest_def)
    from getpixel_resize [OF assms, of 1 X Y] X Y
    show "image_resize_nearest c (16, 16) ! Y ! X = c ! Y ! X"
      by (simp add: getpixel_def)
  qed
qed

lemma draw_pixel_outside:
  "\<not> (0 \<le> x \<and> x < 16 \<and> 0 \<le> y \<and> y < 16) \<Longrightarrow> draw_pixel img x y color s = Some s"
  by (auto simp: draw_pixel_def TILE_SIZE_def)



section \<open>Every drawer draws one canvas\<close>

text \<open>
  Each drawer is a block of statements on the image it has created: the rules for
  \<open>acts\<close> and \<open>finishes\<close> go through the block and collect its effect.
\<close>

lemma terrain_empty_air_draws: "\<exists>c. draws terrain_empty_air c"
  by (rule exI, rule drawsI [OF terrain_empty_air_def [unfolded Let_def]])
     ((rule acts_intros | simp add: resolve_simps)+)

lemma terrain_grass_draws: "\<exists>c. draws terrain_grass c"
  by (rule exI, rule drawsI [OF terrain_grass_def [unfolded Let_def]])
     ((rule acts_intros | simp add: resolve_simps)+)

lemma terrain_dirt_draws: "\<exists>c. draws terrain_dirt c"
  by (rule exI, rule drawsI [OF terrain_dirt_def [unfolded Let_def]])
     ((rule acts_intros | simp add: resolve_simps)+)

lemma terrain_stone_draws: "\<exists>c. draws terrain_stone c"
  by (rule exI, rule drawsI [OF terrain_stone_def [unfolded Let_def]])
     ((rule acts_intros | simp add: resolve_simps)+)

lemma terrain_water_draws: "\<exists>c. draws terrain_water c"
  by (rule exI, rule drawsI [OF terrain_water_def [unfolded Let_def]])
     ((rule acts_intros | simp add: resolve_simps)+)

lemma terrain_tree_draws: "\<exists>c. draws terrain_tree c"
  by (rule exI, rule drawsI [OF terrain_tree_def [unfolded Let_def]])
     ((rule acts_intros | simp add: resolve_simps)+)

lemma terrain_shrub_draws: "\<exists>c. draws terrain_shrub c"
  by (rule exI, rule drawsI [OF terrain_shrub_def [unfolded Let_def]])
     ((rule acts_intros | simp add: resolve_simps)+)

lemma terrain_wall_draws: "\<exists>c. draws terrain_wall c"
  by (rule exI, rule drawsI [OF terrain_wall_def [unfolded Let_def]])
     ((rule acts_intros | simp add: resolve_simps)+)

lemma terrain_ore_draws: "\<exists>c. draws terrain_ore c"
  by (rule exI, rule drawsI [OF terrain_ore_def [unfolded Let_def]])
     ((rule acts_intros | simp add: resolve_simps)+)

lemma terrain_wooden_floor_draws: "\<exists>c. draws terrain_wooden_floor c"
  by (rule exI, rule drawsI [OF terrain_wooden_floor_def [unfolded Let_def]])
     ((rule acts_intros | simp add: resolve_simps)+)

lemma terrain_stone_floor_draws: "\<exists>c. draws terrain_stone_floor c"
  by (rule exI, rule drawsI [OF terrain_stone_floor_def [unfolded Let_def]])
     ((rule acts_intros | simp add: resolve_simps)+)

lemma terrain_constructed_wall_draws: "\<exists>c. draws terrain_constructed_wall c"
  by (rule exI, rule drawsI [OF terrain_constructed_wall_def [unfolded Let_def]])
     ((rule acts_intros | simp add: resolve_simps)+)

lemma terrain_stairs_up_draws: "\<exists>c. draws terrain_stairs_up c"
  by (rule exI, rule drawsI [OF terrain_stairs_up_def [unfolded Let_def]])
     ((rule acts_intros | simp add: resolve_simps)+)

lemma terrain_stairs_down_draws: "\<exists>c. draws terrain_stairs_down c"
  by (rule exI, rule drawsI [OF terrain_stairs_down_def [unfolded Let_def]])
     ((rule acts_intros | simp add: resolve_simps)+)

lemma terrain_stairs_updown_draws: "\<exists>c. draws terrain_stairs_updown c"
  by (rule exI, rule drawsI [OF terrain_stairs_updown_def [unfolded Let_def]])
     ((rule acts_intros | simp add: resolve_simps)+)

lemma terrain_ramp_up_draws: "\<exists>c. draws terrain_ramp_up c"
  by (rule exI, rule drawsI [OF terrain_ramp_up_def [unfolded Let_def]])
     ((rule acts_intros | simp add: resolve_simps)+)

lemma terrain_ramp_down_draws: "\<exists>c. draws terrain_ramp_down c"
  by (rule exI, rule drawsI [OF terrain_ramp_down_def [unfolded Let_def]])
     ((rule acts_intros | simp add: resolve_simps)+)

lemma creature_dwarf_draws: "\<exists>c. draws creature_dwarf c"
  by (rule exI, rule drawsI [OF creature_dwarf_def [unfolded Let_def]])
     ((rule acts_intros | simp add: resolve_simps)+)

lemma creature_goblin_draws: "\<exists>c. draws creature_goblin c"
  by (rule exI, rule drawsI [OF creature_goblin_def [unfolded Let_def]])
     ((rule acts_intros | simp add: resolve_simps)+)

lemma creature_wolf_draws: "\<exists>c. draws creature_wolf c"
  by (rule exI, rule drawsI [OF creature_wolf_def [unfolded Let_def]])
     ((rule acts_intros | simp add: resolve_simps)+)

lemma creature_bear_draws: "\<exists>c. draws creature_bear c"
  by (rule exI, rule drawsI [OF creature_bear_def [unfolded Let_def]])
     ((rule acts_intros | simp add: resolve_simps)+)

lemma creature_giant_draws: "\<exists>c. draws creature_giant c"
  by (rule exI, rule drawsI [OF creature_giant_def [unfolded Let_def]])
     ((rule acts_intros | simp add: resolve_simps)+)

lemma creature_undead_draws: "\<exists>c. draws creature_undead c"
  by (rule exI, rule drawsI [OF creature_undead_def [unfolded Let_def]])
     ((rule acts_intros | simp add: resolve_simps)+)

lemma item_food_draws: "\<exists>c. draws item_food c"
  by (rule exI, rule drawsI [OF item_food_def [unfolded Let_def]])
     ((rule acts_intros | simp add: resolve_simps)+)

lemma item_drink_draws: "\<exists>c. draws item_drink c"
  by (rule exI, rule drawsI [OF item_drink_def [unfolded Let_def]])
     ((rule acts_intros | simp add: resolve_simps)+)

lemma item_raw_meat_draws: "\<exists>c. draws item_raw_meat c"
  by (rule exI, rule drawsI [OF item_raw_meat_def [unfolded Let_def]])
     ((rule acts_intros | simp add: resolve_simps)+)

lemma item_plant_draws: "\<exists>c. draws item_plant c"
  by (rule exI, rule drawsI [OF item_plant_def [unfolded Let_def]])
     ((rule acts_intros | simp add: resolve_simps)+)

lemma item_bed_draws: "\<exists>c. draws item_bed c"
  by (rule exI, rule drawsI [OF item_bed_def [unfolded Let_def]])
     ((rule acts_intros | simp add: resolve_simps)+)

lemma item_table_draws: "\<exists>c. draws item_table c"
  by (rule exI, rule drawsI [OF item_table_def [unfolded Let_def]])
     ((rule acts_intros | simp add: resolve_simps)+)

lemma item_chair_draws: "\<exists>c. draws item_chair c"
  by (rule exI, rule drawsI [OF item_chair_def [unfolded Let_def]])
     ((rule acts_intros | simp add: resolve_simps)+)

lemma item_door_draws: "\<exists>c. draws item_door c"
  by (rule exI, rule drawsI [OF item_door_def [unfolded Let_def]])
     ((rule acts_intros | simp add: resolve_simps)+)

lemma item_barrel_draws: "\<exists>c. draws item_barrel c"
  by (rule exI, rule drawsI [OF item_barrel_def [unfolded Let_def]])
     ((rule acts_intros | simp add: resolve_simps)+)

lemma item_bin_draws: "\<exists>c. draws item_bin c"
  by (rule exI, rule drawsI [OF item_bin_def [unfolded Let_def]])
     ((rule acts_intros | simp add: resolve_simps)+)

lemma item_pickaxe_draws: "\<exists>c. draws item_pickaxe c"
  by (rule exI, rule drawsI [OF item_pickaxe_def [unfolded Let_def]])
     ((rule acts_intros | simp add: resolve_simps)+)

lemma item_axe_draws: "\<exists>c. draws item_axe c"
  by (rule exI, rule drawsI [OF item_axe_def [unfolded Let_def]])
     ((rule acts_intros | simp add: resolve_simps)+)

lemma item_log_draws: "\<exists>c. draws item_log c"
  by (rule exI, rule drawsI [OF item_log_def [unfolded Let_def]])
     ((rule acts_intros | simp add: resolve_simps)+)

lemma item_stone_draws: "\<exists>c. draws item_stone c"
  by (rule exI, rule drawsI [OF item_stone_def [unfolded Let_def]])
     ((rule acts_intros | simp add: resolve_simps)+)

lemma item_ore_draws: "\<exists>c. draws item_ore c"
  by (rule exI, rule drawsI [OF item_ore_def [unfolded Let_def]])
     ((rule acts_intros | simp add: resolve_simps)+)

lemma ui_selection_draws: "\<exists>c. draws ui_selection c"
  by (rule exI, rule drawsI [OF ui_selection_def [unfolded Let_def COLORS_values bind.bind_lunit]])
     ((rule acts_intros | simp add: resolve_simps)+)

lemma sprite_drawers_draw:
  assumes "d \<in> set sprite_drawers"
  shows "\<exists>c. draws d c"
  using assms
    terrain_empty_air_draws terrain_grass_draws terrain_dirt_draws
    terrain_stone_draws terrain_water_draws terrain_tree_draws terrain_shrub_draws
    terrain_wall_draws terrain_ore_draws terrain_wooden_floor_draws
    terrain_stone_floor_draws terrain_constructed_wall_draws terrain_stairs_up_draws
    terrain_stairs_down_draws terrain_stairs_updown_draws terrain_ramp_up_draws
    terrain_ramp_down_draws creature_dwarf_draws creature_goblin_draws
    creature_wolf_draws creature_bear_draws creature_giant_draws
    creature_undead_draws item_food_draws item_drink_draws item_raw_meat_draws
    item_plant_draws item_bed_draws item_table_draws item_chair_draws
    item_door_draws item_barrel_draws item_bin_draws item_pickaxe_draws
    item_axe_draws item_log_draws item_stone_draws item_ore_draws ui_selection_draws
  by (auto simp: sprite_drawers_def terrain_sprites_def creature_sprites_def item_sprites_def)

lemma draws_returned: "draws d c \<Longrightarrow> returned (d s) = Some c"
  by (simp add: draws_def returned_def)



section \<open>The canvas primitives\<close>

text \<open>
  C4: \<open>draw_pixel\<close> (the spec's \<open>set_pixel\<close>) with a position outside the tile
  returns the world as it is and does not raise, whatever the colour argument, even a
  name that the palette does not have; with a position inside the tile, on a canvas,
  it overwrites exactly that pixel with the colour the argument stands for, at alpha 255,
  and changes no other pixel, no other image and nothing of the trace.
\<close>

theorem draw_pixel_clips:
  "(\<not> (0 \<le> x \<and> x < 16 \<and> 0 \<le> y \<and> y < 16) \<longrightarrow> draw_pixel img x y color s = Some s) \<and>
   (0 \<le> x \<and> x < 16 \<and> 0 \<le> y \<and> y < 16 \<and> img < length (images s) \<and>
    is_canvas (images s ! img) \<and> resolve color = Some c \<longrightarrow>
      (\<exists>s'. draw_pixel img x y color s = Some s' \<and>
         trace s' = trace s \<and>
         length (images s') = length (images s) \<and>
         (\<forall>r. r \<noteq> img \<longrightarrow> images s' ! r = images s ! r) \<and>
         is_canvas (images s' ! img) \<and>
         (\<forall>px<16. \<forall>py<16. getpixel (images s' ! img) (px, py) =
            (if int px = x \<and> int py = y then with_alpha c 255
             else getpixel (images s ! img) (px, py)))))"
proof (intro conjI impI)
  assume "\<not> (0 \<le> x \<and> x < 16 \<and> 0 \<le> y \<and> y < 16)"
  then show "draw_pixel img x y color s = Some s"
    by (rule draw_pixel_outside)
next
  assume a: "0 \<le> x \<and> x < 16 \<and> 0 \<le> y \<and> y < 16 \<and> img < length (images s) \<and>
    is_canvas (images s ! img) \<and> resolve color = Some c"
  let ?s' = "on_image img (\<lambda>im. paint im x y (with_alpha c 255)) s"
  from a have "draw_pixel img x y color s = Some ?s'"
    by (simp add: draw_pixel_canvas)
  moreover have "trace ?s' = trace s" "length (images ?s') = length (images s)"
    by (simp_all add: on_image_def)
  moreover have "\<forall>r. r \<noteq> img \<longrightarrow> images ?s' ! r = images s ! r"
    by (simp add: on_image_def)
  moreover from a have "is_canvas (images ?s' ! img)"
    by (simp add: is_canvas_paint)
  moreover from a have "\<forall>px<16. \<forall>py<16. getpixel (images ?s' ! img) (px, py) =
            (if int px = x \<and> int py = y then with_alpha c 255
             else getpixel (images s ! img) (px, py))"
    by (simp add: getpixel_paint)
  ultimately show "\<exists>s'. draw_pixel img x y color s = Some s' \<and>
         trace s' = trace s \<and>
         length (images s') = length (images s) \<and>
         (\<forall>r. r \<noteq> img \<longrightarrow> images s' ! r = images s ! r) \<and>
         is_canvas (images s' ! img) \<and>
         (\<forall>px<16. \<forall>py<16. getpixel (images s' ! img) (px, py) =
            (if int px = x \<and> int py = y then with_alpha c 255
             else getpixel (images s ! img) (px, py)))"
    by blast
qed

theorem draw_pixel_clips_witness:
  "draw_pixel 0 16 (- 1) (Named ''no_such_color'') \<lparr>images = [blank], trace = []\<rparr>
     = Some \<lparr>images = [blank], trace = []\<rparr> \<and>
   (\<exists>s'. draw_pixel 0 3 4 (Named ''empty'') \<lparr>images = [blank], trace = []\<rparr> = Some s' \<and>
      getpixel (images s' ! 0) (3, 4) = (28, 28, 38, 255) \<and>
      getpixel (images s' ! 0) (4, 3) = (0, 0, 0, 0))"
proof -
  let ?s = "\<lparr>images = [blank], trace = []\<rparr>"
  have blank00: "getpixel blank (4, 3) = (0, 0, 0, 0)"
    by (simp add: getpixel_def blank_def)
  from draw_pixel_clips [where x = 16 and y = "- 1" and img = 0
      and color = "Named ''no_such_color''" and s = ?s]
  have out: "draw_pixel 0 16 (- 1) (Named ''no_such_color'') ?s = Some ?s"
    by simp
  from draw_pixel_clips [where x = 3 and y = 4 and img = 0
      and color = "Named ''empty''" and s = ?s and c = "(28, 28, 38)"]
  obtain s' where s': "draw_pixel 0 3 4 (Named ''empty'') ?s = Some s'"
    "\<forall>px<16. \<forall>py<16. getpixel (images s' ! 0) (px, py) =
       (if int px = 3 \<and> int py = 4 then with_alpha (28, 28, 38) 255
        else getpixel blank (px, py))"
    by (auto simp: is_canvas_blank resolve_simps)
  from s'(2) have "getpixel (images s' ! 0) (3, 4) = (28, 28, 38, 255)"
    "getpixel (images s' ! 0) (4, 3) = getpixel blank (4, 3)"
    by simp_all
  with out s'(1) blank00 show ?thesis by simp
qed


lemma for_each_append:
  "for_each (xs @ ys) body = (\<lambda>s. for_each xs body s \<bind> for_each ys body)"
proof (induction xs)
  case Nil
  show ?case by (intro ext) simp
next
  case (Cons x xs)
  show ?case by (intro ext) (simp add: Cons)
qed

lemma for_each_map: "for_each (map g xs) body = for_each xs (\<lambda>x. body (g x))"
proof (induction xs)
  case Nil
  show ?case by (intro ext) simp
next
  case (Cons x xs)
  show ?case by (intro ext) (simp add: Cons)
qed

lemma for_each_concat_map:
  "for_each (concat (map f ys)) body = for_each ys (\<lambda>y. for_each (f y) body)"
proof (induction ys)
  case Nil
  show ?case by (intro ext) simp
next
  case (Cons y ys)
  show ?case by (intro ext) (simp add: for_each_append Cons)
qed

lemma for_each_noop:
  "(\<And>x. x \<in> set xs \<Longrightarrow> body x s = Some s) \<Longrightarrow> for_each xs body s = Some s"
  by (induction xs) simp_all

lemma fill_rect_cells:
  "fill_rect img x y w h color s =
     for_each (rect_cells x y w h) (\<lambda>(px, py). draw_pixel img px py color) s"
  by (simp add: fill_rect_def rect_cells_def for_each_concat_map for_each_map)

lemma set_rect_cells: "set (rect_cells x y w h) = {x..<x + w} \<times> {y..<y + h}"
proof -
  have "set (rect_cells x y w h) =
        (\<Union>py \<in> set (py_range y (y + h)). (\<lambda>px. (px, py)) ` set (py_range x (x + w)))"
    by (simp add: rect_cells_def)
  also have "\<dots> = {x..<x + w} \<times> {y..<y + h}"
    by (auto simp: mem_py_range)
  finally show ?thesis .
qed

text \<open>
  C5: \<open>fill_rect\<close> is \<open>draw_pixel\<close> (the spec's \<open>set_pixel\<close>) applied to every cell
  of the rectangle \<open>[x, x+w) \<times> [y, y+h)\<close>, for all integers \<open>x\<close>, \<open>y\<close>, \<open>w\<close>,
  \<open>h\<close>. A rectangle that lies outside the canvas changes nothing and raises nothing,
  whatever the colour argument. On a canvas, with a colour argument that stands for a
  colour, the call succeeds; afterwards every pixel of the canvas inside the rectangle
  holds the colour at alpha 255, and every other pixel, every other image and the trace
  are as before.
\<close>

theorem fill_rect_spec:
  "fill_rect img x y w h color s =
     for_each (rect_cells x y w h) (\<lambda>(px, py). draw_pixel img px py color) s \<and>
   set (rect_cells x y w h) = {x..<x + w} \<times> {y..<y + h} \<and>
   (x + w \<le> 0 \<or> 16 \<le> x \<or> y + h \<le> 0 \<or> 16 \<le> y \<longrightarrow> fill_rect img x y w h color s = Some s) \<and>
   (img < length (images s) \<and> is_canvas (images s ! img) \<and> resolve color = Some c \<longrightarrow>
      (\<exists>s'. fill_rect img x y w h color s = Some s' \<and>
         trace s' = trace s \<and>
         length (images s') = length (images s) \<and>
         (\<forall>r. r \<noteq> img \<longrightarrow> images s' ! r = images s ! r) \<and>
         is_canvas (images s' ! img) \<and>
         (\<forall>px<16. \<forall>py<16. getpixel (images s' ! img) (px, py) =
            (if x \<le> int px \<and> int px < x + w \<and> y \<le> int py \<and> int py < y + h
             then with_alpha c 255
             else getpixel (images s ! img) (px, py)))))"
proof (intro conjI impI)
  show "fill_rect img x y w h color s =
     for_each (rect_cells x y w h) (\<lambda>(px, py). draw_pixel img px py color) s"
    by (rule fill_rect_cells)
  show "set (rect_cells x y w h) = {x..<x + w} \<times> {y..<y + h}"
    by (rule set_rect_cells)
next
  assume out: "x + w \<le> 0 \<or> 16 \<le> x \<or> y + h \<le> 0 \<or> 16 \<le> y"
  have "(case cell of (px, py) \<Rightarrow> draw_pixel img px py color) s = Some s"
    if "cell \<in> set (rect_cells x y w h)" for cell
  proof -
    obtain px py where cell: "cell = (px, py)" by (cases cell)
    with that have "x \<le> px" "px < x + w" "y \<le> py" "py < y + h"
      by (simp_all add: set_rect_cells)
    with out have "\<not> (0 \<le> px \<and> px < 16 \<and> 0 \<le> py \<and> py < 16)"
      by linarith
    with cell show ?thesis
      by (simp add: draw_pixel_outside)
  qed
  then show "fill_rect img x y w h color s = Some s"
    unfolding fill_rect_cells by (rule for_each_noop)
next
  assume a: "img < length (images s) \<and> is_canvas (images s ! img) \<and> resolve color = Some c"
  let ?s' = "on_image img (\<lambda>im. paint_rect im x y w h (with_alpha c 255)) s"
  from a have "acts (\<lambda>r. fill_rect r x y w h color)
      (\<lambda>im. paint_rect im x y w h (with_alpha (the (resolve color)) 255))"
    by (intro acts_fill_rect) simp
  with a have "fill_rect img x y w h color s = Some ?s'"
    by (simp add: acts_def)
  moreover have "trace ?s' = trace s" "length (images ?s') = length (images s)"
    by (simp_all add: on_image_def)
  moreover have "\<forall>r. r \<noteq> img \<longrightarrow> images ?s' ! r = images s ! r"
    by (simp add: on_image_def)
  moreover from a have "is_canvas (images ?s' ! img)"
    by (simp add: is_canvas_paint_rect)
  moreover from a have "\<forall>px<16. \<forall>py<16. getpixel (images ?s' ! img) (px, py) =
            (if x \<le> int px \<and> int px < x + w \<and> y \<le> int py \<and> int py < y + h
             then with_alpha c 255
             else getpixel (images s ! img) (px, py))"
    by (simp add: getpixel_paint_rect)
  ultimately show "\<exists>s'. fill_rect img x y w h color s = Some s' \<and>
         trace s' = trace s \<and>
         length (images s') = length (images s) \<and>
         (\<forall>r. r \<noteq> img \<longrightarrow> images s' ! r = images s ! r) \<and>
         is_canvas (images s' ! img) \<and>
         (\<forall>px<16. \<forall>py<16. getpixel (images s' ! img) (px, py) =
            (if x \<le> int px \<and> int px < x + w \<and> y \<le> int py \<and> int py < y + h
             then with_alpha c 255
             else getpixel (images s ! img) (px, py)))"
    by blast
qed

theorem fill_rect_spec_witness:
  "fill_rect 0 20 (- 3) 2 2 (Named ''no_such_color'') \<lparr>images = [blank], trace = []\<rparr>
     = Some \<lparr>images = [blank], trace = []\<rparr> \<and>
   (\<exists>s'. fill_rect 0 14 (- 2) 5 4 (Named ''gold'') \<lparr>images = [blank], trace = []\<rparr> = Some s' \<and>
      getpixel (images s' ! 0) (15, 1) = (218, 178, 58, 255) \<and>
      getpixel (images s' ! 0) (13, 1) = (0, 0, 0, 0) \<and>
      getpixel (images s' ! 0) (15, 2) = (0, 0, 0, 0))"
proof -
  let ?s = "\<lparr>images = [blank], trace = []\<rparr>"
  have clear: "getpixel blank (13, 1) = (0, 0, 0, 0)" "getpixel blank (15, 2) = (0, 0, 0, 0)"
    by (simp_all add: getpixel_def blank_def)
  have outside: "(20::int) + 2 \<le> 0 \<or> (16::int) \<le> 20 \<or> (- 3::int) + 2 \<le> 0 \<or> (16::int) \<le> - 3"
    by simp
  have out: "fill_rect 0 20 (- 3) 2 2 (Named ''no_such_color'') ?s = Some ?s"
    by (rule fill_rect_spec [where x = 20 and y = "- 3" and w = 2 and h = 2 and img = 0
          and color = "Named ''no_such_color''" and s = ?s,
          THEN conjunct2, THEN conjunct2, THEN conjunct1, THEN mp, OF outside])
  have canvas: "0 < length (images ?s) \<and> is_canvas (images ?s ! 0) \<and>
      resolve (Named ''gold'') = Some (218, 178, 58)"
    by (simp add: is_canvas_blank resolve_simps)
  from fill_rect_spec [where x = 14 and y = "- 2" and w = 5 and h = 4 and img = 0
      and color = "Named ''gold''" and s = ?s and c = "(218, 178, 58)",
      THEN conjunct2, THEN conjunct2, THEN conjunct2, THEN mp, OF canvas]
  obtain s' where s': "fill_rect 0 14 (- 2) 5 4 (Named ''gold'') ?s = Some s'"
    "\<forall>px<16. \<forall>py<16. getpixel (images s' ! 0) (px, py) =
       (if 14 \<le> int px \<and> int px < 14 + 5 \<and> - 2 \<le> int py \<and> int py < - 2 + 4
        then with_alpha (218, 178, 58) 255
        else getpixel (images ?s ! 0) (px, py))"
    by blast
  from s'(2) have "getpixel (images s' ! 0) (15, 1) = (218, 178, 58, 255)"
    "getpixel (images s' ! 0) (13, 1) = getpixel blank (13, 1)"
    "getpixel (images s' ! 0) (15, 2) = getpixel blank (15, 2)"
    by simp_all
  with out s'(1) clear show ?thesis by simp
qed



section \<open>The asset emitter\<close>

lemma size_resize:
  "length (image_resize_nearest im (w, h)) = h"
  "row \<in> set (image_resize_nearest im (w, h)) \<Longrightarrow> length row = w"
  by (auto simp: image_resize_nearest_def Let_def)

text \<open>
  C7: for every sprite name and category, \<open>create_imageset\<close>, given a reference to an
  image, adds to the trace the making of the sprite's directory, exactly three saved
  images, under the names \<open>name.png\<close>, \<open>name@2x.png\<close> and \<open>name@3x.png\<close> in that
  directory, and the descriptor \<open>Contents.json\<close>, whose list names exactly these three
  files, each with the idiom \<open>universal\<close> and with the scale label \<open>1x\<close>, \<open>2x\<close>,
  \<open>3x\<close> of the image saved under that name. The three names differ, and the image
  saved for the scale \<open>k\<close> has \<open>16 * k\<close> rows of \<open>16 * k\<close> pixels.
\<close>

theorem create_imageset_files:
  "img < length (images s) \<Longrightarrow>
   (\<exists>s'. create_imageset name category img s = Some s' \<and>
      trace s' = trace s @
        [Makedirs (imageset_folder name category),
         Save (os_path_join (imageset_folder name category) [name @ ''.png''])
           (image_resize_nearest (images s ! img) (16, 16)),
         Save (os_path_join (imageset_folder name category) [name @ ''@2x.png''])
           (image_resize_nearest (images s ! img) (32, 32)),
         Save (os_path_join (imageset_folder name category) [name @ ''@3x.png''])
           (image_resize_nearest (images s ! img) (48, 48)),
         JsonDump (os_path_join (imageset_folder name category) [''Contents.json''])
           (JDict [
              (''images'', JList [
                 JDict [(''filename'', JString (name @ ''.png'')),
                        (''idiom'', JString ''universal''), (''scale'', JString ''1x'')],
                 JDict [(''filename'', JString (name @ ''@2x.png'')),
                        (''idiom'', JString ''universal''), (''scale'', JString ''2x'')],
                 JDict [(''filename'', JString (name @ ''@3x.png'')),
                        (''idiom'', JString ''universal''), (''scale'', JString ''3x'')]]),
              (''info'', JDict [(''author'', JString ''xcode''), (''version'', JInt 1)])])]) \<and>
   distinct [name @ ''.png'', name @ ''@2x.png'', name @ ''@3x.png''] \<and>
   (\<forall>k. length (image_resize_nearest (images s ! img) (16 * k, 16 * k)) = 16 * k \<and>
        (\<forall>row \<in> set (image_resize_nearest (images s ! img) (16 * k, 16 * k)).
           length row = 16 * k))"
  by (simp add: create_imageset_eq imageset_descriptor_def size_resize)

theorem create_imageset_files_witness:
  "\<exists>s'. create_imageset ''ui_selection'' ''UI'' 0 \<lparr>images = [blank], trace = []\<rparr> = Some s' \<and>
     length (trace s') = 5 \<and>
     trace s' ! 0 = Makedirs ''Outpost/Assets.xcassets/UI/ui_selection.imageset'' \<and>
     trace s' ! 2 = Save ''Outpost/Assets.xcassets/UI/ui_selection.imageset/ui_selection@2x.png''
                      (image_resize_nearest blank (32, 32))"
  using create_imageset_files [where img = 0 and s = "\<lparr>images = [blank], trace = []\<rparr>"
      and name = "''ui_selection''" and category = "''UI''"]
  by (auto simp: imageset_folder_def ASSETS_PATH_def)

text \<open>
  C3: for every canvas, the image that \<open>create_imageset\<close> saves for the scale 2 has,
  at each of the four positions \<open>(2x, 2y)\<close>, \<open>(2x+1, 2y)\<close>, \<open>(2x, 2y+1)\<close>,
  \<open>(2x+1, 2y+1)\<close>, the colour of the canvas at \<open>(x, y)\<close>, and the image saved for
  the scale 3 has that colour at each of the nine positions of the block that starts at
  \<open>(3x, 3y)\<close>; the image saved for the scale 1 is the canvas.
\<close>

theorem upscaling_blocks:
  "img < length (images s) \<Longrightarrow> is_canvas (images s ! img) \<Longrightarrow>
   \<exists>s' small double triple.
      create_imageset name category img s = Some s' \<and>
      saved_images (drop (length (trace s)) (trace s')) = [small, double, triple] \<and>
      small = images s ! img \<and>
      (\<forall>x<16. \<forall>y<16. \<forall>dx<2. \<forall>dy<2.
         getpixel double (2 * x + dx, 2 * y + dy) = getpixel (images s ! img) (x, y)) \<and>
      (\<forall>x<16. \<forall>y<16. \<forall>dx<3. \<forall>dy<3.
         getpixel triple (3 * x + dx, 3 * y + dy) = getpixel (images s ! img) (x, y))"
proof -
  assume img: "img < length (images s)" and c: "is_canvas (images s ! img)"
  let ?c = "images s ! img"
  have two: "getpixel (image_resize_nearest ?c (32, 32)) (2 * x + dx, 2 * y + dy) = getpixel ?c (x, y)"
    if "x < 16" "y < 16" "dx < 2" "dy < 2" for x y dx dy
    using getpixel_resize [OF c, of 2 "2 * x + dx" "2 * y + dy"] that by simp
  have three: "getpixel (image_resize_nearest ?c (48, 48)) (3 * x + dx, 3 * y + dy) = getpixel ?c (x, y)"
    if "x < 16" "y < 16" "dx < 3" "dy < 3" for x y dx dy
    using getpixel_resize [OF c, of 3 "3 * x + dx" "3 * y + dy"] that by simp
  from img c two three show ?thesis
    by (simp add: create_imageset_eq resize_same)
qed

theorem upscaling_blocks_witness:
  "\<exists>s' small double triple.
      create_imageset ''t'' ''Terrain'' 0 \<lparr>images = [paint blank 5 7 (1, 2, 3, 255)], trace = []\<rparr>
        = Some s' \<and>
      saved_images (trace s') = [small, double, triple] \<and>
      getpixel double (11, 15) = (1, 2, 3, 255) \<and>
      getpixel triple (15, 23) = (1, 2, 3, 255) \<and>
      getpixel triple (14, 23) = (0, 0, 0, 0)"
proof -
  let ?c = "paint blank 5 7 (1, 2, 3, 255)"
  let ?s = "\<lparr>images = [?c], trace = []\<rparr>"
  have c: "is_canvas (images ?s ! 0)"
    by (simp add: is_canvas_paint is_canvas_blank)
  have px: "getpixel ?c (5, 7) = (1, 2, 3, 255)" "getpixel ?c (4, 7) = (0, 0, 0, 0)"
    by (simp_all add: getpixel_paint is_canvas_blank) (simp add: getpixel_def blank_def)
  from upscaling_blocks [where img = 0 and s = ?s and name = "''t''" and category = "''Terrain''", OF _ c]
  obtain s' small double triple where *:
    "create_imageset ''t'' ''Terrain'' 0 ?s = Some s'"
    "saved_images (drop (length (trace ?s)) (trace s')) = [small, double, triple]"
    "\<forall>x<16. \<forall>y<16. \<forall>dx<2. \<forall>dy<2.
         getpixel double (2 * x + dx, 2 * y + dy) = getpixel (images ?s ! 0) (x, y)"
    "\<forall>x<16. \<forall>y<16. \<forall>dx<3. \<forall>dy<3.
         getpixel triple (3 * x + dx, 3 * y + dy) = getpixel (images ?s ! 0) (x, y)"
    by auto
  from *(3) [rule_format, of 5 7 1 1]
  have "getpixel double (11, 15) = getpixel ?c (5, 7)"
    by simp
  moreover from *(4) [rule_format, of 5 7 0 2]
  have "getpixel triple (15, 23) = getpixel ?c (5, 7)"
    by simp
  moreover from *(4) [rule_format, of 4 7 2 2]
  have "getpixel triple (14, 23) = getpixel ?c (4, 7)"
    by simp
  ultimately show ?thesis using *(1,2) px by simp
qed



section \<open>What single sprites look like\<close>

lemma terrain_wall_canvas:
  "\<exists>c. draws terrain_wall c \<and> getpixel c (0, 0) = (88, 88, 88, 255)"
  apply (rule exI, rule conjI)
   apply (rule drawsI [OF terrain_wall_def [unfolded Let_def]])
   apply ((rule acts_intros | simp add: resolve_simps)+) [1]
  apply (simp add: getpixel_paint getpixel_paint_rect is_canvas_paint is_canvas_paint_rect
      is_canvas_blank resolve_simps)
  done

text \<open>
  C1 as the spec states it fails: the pixel at (0, 0) of the canvas of \<open>terrain_wall\<close>
  is not the colour of \<open>wall_dark\<close>.
\<close>

theorem terrain_wall_origin_not_wall_dark:
  "COLORS ''wall_dark'' = Some (68, 68, 68) \<and>
   pixel_at (returned (terrain_wall empty_world)) (0, 0) \<noteq> Some (68, 68, 68, 255)"
proof -
  from terrain_wall_canvas obtain c
    where c: "draws terrain_wall c" "getpixel c (0, 0) = (88, 88, 88, 255)"
    by blast
  then show ?thesis
    by (simp add: draws_returned pixel_at_def COLORS_values)
qed

text \<open>
  C1, amended: in every world, the canvas that \<open>terrain_wall\<close> returns, and with it
  the image of the 1x export, has at (0, 0) the triple that the palette maps
  \<open>stone_dark\<close> to, with alpha 255: the second \<open>fill_rect\<close> of the drawer paints
  \<open>stone_dark\<close> over the \<open>wall_dark\<close> base there.
\<close>

theorem terrain_wall_origin:
  "\<exists>c. returned (terrain_wall s) = Some c \<and>
       COLORS ''stone_dark'' = Some (88, 88, 88) \<and>
       getpixel c (0, 0) = (88, 88, 88, 255) \<and>
       getpixel (image_resize_nearest c (16, 16)) (0, 0) = (88, 88, 88, 255)"
proof -
  from terrain_wall_canvas obtain c
    where c: "draws terrain_wall c" "getpixel c (0, 0) = (88, 88, 88, 255)"
    by blast
  then have "is_canvas c" by (simp add: draws_def)
  with c show ?thesis
    by (simp add: draws_returned resize_same COLORS_values)
qed

lemma ui_selection_canvas:
  "\<exists>c. draws ui_selection c \<and> transparent_count c = 228 \<and> opaque_count c = 28"
  apply (rule exI, rule conjI)
   apply (rule drawsI [OF ui_selection_def [unfolded Let_def COLORS_values bind.bind_lunit]])
   apply ((rule acts_intros | simp add: resolve_simps)+) [1]
  apply code_simp
  done

lemma terrain_empty_air_canvas:
  "\<exists>c. draws terrain_empty_air c \<and> transparent_count c = 0 \<and> opaque_count c = 256"
  apply (rule exI, rule conjI)
   apply (rule drawsI [OF terrain_empty_air_def [unfolded Let_def]])
   apply ((rule acts_intros | simp add: resolve_simps)+) [1]
  apply code_simp
  done

text \<open>
  C2 as the spec states it fails for the empty-air terrain: no pixel of its canvas is
  left transparent.
\<close>

theorem terrain_empty_air_not_transparent:
  "map_option transparent_count (returned (terrain_empty_air empty_world)) = Some 0 \<and>
   map_option opaque_count (returned (terrain_empty_air empty_world)) = Some 256"
  using terrain_empty_air_canvas
  by (auto simp: draws_returned)

text \<open>
  C2, amended: the UI selection drawer returns a mostly transparent canvas, in which 228
  of the 256 pixels are the transparent fill and 28 are opaque; the empty-air terrain
  drawer returns a canvas that is opaque everywhere, since it starts by filling all 256
  pixels with the colour \<open>empty\<close>.
\<close>

theorem background_sprites:
  "(\<exists>c. returned (ui_selection s) = Some c \<and> transparent_count c = 228 \<and> opaque_count c = 28) \<and>
   (\<exists>c. returned (terrain_empty_air s) = Some c \<and> transparent_count c = 0 \<and>
        opaque_count c = 256)"
  using ui_selection_canvas terrain_empty_air_canvas
  by (auto simp: draws_returned)



section \<open>Properties of all drawers\<close>

lemma ui_selection_is_drawer: "ui_selection \<in> set sprite_drawers"
  by (simp add: sprite_drawers_def)

lemma terrain_wall_is_drawer: "terrain_wall \<in> set sprite_drawers"
  by (simp add: sprite_drawers_def terrain_sprites_def)

text \<open>
  C6: none of the 39 drawers raises, in any world: every name that a drawer passes to
  \<open>draw_pixel\<close> or \<open>fill_rect\<close> is in the palette, so the lookup of \<open>draw_pixel\<close>
  (and the one of \<open>ui_selection\<close>) never fails. The result \<open>None\<close> stands for a raised
  exception; KeyError is the only one a drawer could raise on a canvas.
\<close>

theorem drawers_never_raise:
  "length sprite_drawers = 39 \<and> (\<forall>d \<in> set sprite_drawers. \<forall>s. d s \<noteq> None)"
proof (intro conjI ballI allI)
  show "length sprite_drawers = 39"
    by (simp add: sprite_drawers_def terrain_sprites_def creature_sprites_def item_sprites_def)
next
  fix d s
  assume "d \<in> set sprite_drawers"
  then obtain c where "draws d c"
    using sprite_drawers_draw by blast
  then show "d s \<noteq> None"
    by (simp add: draws_def)
qed

theorem drawers_never_raise_witness:
  "terrain_wall \<in> set sprite_drawers \<and> terrain_wall empty_world \<noteq> None"
proof -
  from drawers_never_raise have "\<forall>d \<in> set sprite_drawers. \<forall>s. d s \<noteq> None" ..
  from this [rule_format, OF terrain_wall_is_drawer, of empty_world] terrain_wall_is_drawer
  show ?thesis by simp
qed

text \<open>
  C9: every one of the 39 drawers is deterministic. Run twice in a row, from any world,
  it returns two different images that are pixel for pixel the same canvas, the second
  run leaves the image of the first as it was, and the canvas is the same whatever the
  world in which the drawer runs: it depends on no image made before and on nothing of
  the trace.
\<close>

theorem drawers_deterministic:
  "\<forall>d \<in> set sprite_drawers. \<forall>s :: world.
     \<exists>c r1 r2. \<exists>s1 s2 :: world.
       is_canvas c \<and>
       d s = Some (r1, s1) \<and> d s1 = Some (r2, s2) \<and> r1 \<noteq> r2 \<and>
       images s1 ! r1 = c \<and> images s2 ! r2 = c \<and> images s2 ! r1 = c \<and>
       (\<forall>s' :: world. returned (d s') = Some c)"
proof (intro ballI allI)
  fix d and s :: world
  assume "d \<in> set sprite_drawers"
  then obtain c where c: "draws d c"
    using sprite_drawers_draw by blast
  let ?r1 = "length (images s)"
  let ?s1 = "s\<lparr>images := images s @ [c]\<rparr>"
  let ?r2 = "length (images ?s1)"
  let ?s2 = "?s1\<lparr>images := images ?s1 @ [c]\<rparr>"
  from c have "is_canvas c" "d s = Some (?r1, ?s1)" "d ?s1 = Some (?r2, ?s2)"
    by (simp_all add: draws_def)
  moreover have "?r1 \<noteq> ?r2" "images ?s1 ! ?r1 = c" "images ?s2 ! ?r2 = c" "images ?s2 ! ?r1 = c"
    by (simp_all add: nth_append)
  moreover from c have "\<forall>s'. returned (d s') = Some c"
    by (simp add: draws_returned)
  ultimately show "\<exists>c r1 r2. \<exists>s1 s2 :: world.
       is_canvas c \<and>
       d s = Some (r1, s1) \<and> d s1 = Some (r2, s2) \<and> r1 \<noteq> r2 \<and>
       images s1 ! r1 = c \<and> images s2 ! r2 = c \<and> images s2 ! r1 = c \<and>
       (\<forall>s' :: world. returned (d s') = Some c)"
    by blast
qed

theorem drawers_deterministic_witness:
  "\<exists>c. returned (ui_selection empty_world) = Some c \<and>
       returned (ui_selection \<lparr>images = [blank], trace = [Print ''before'']\<rparr>) = Some c"
proof -
  from drawers_deterministic [rule_format, OF ui_selection_is_drawer, of empty_world]
  obtain c where c: "\<forall>s' :: world. returned (ui_selection s') = Some c"
    by blast
  from c [rule_format, of empty_world]
    c [rule_format, of "\<lparr>images = [blank], trace = [Print ''before'']\<rparr>"]
  show ?thesis by simp
qed

lemma for_each_invariant:
  assumes step: "\<And>x s s'. I s \<Longrightarrow> body x s = Some s' \<Longrightarrow> I s'"
  shows "I s \<Longrightarrow> for_each xs body s = Some s' \<Longrightarrow> I s'"
proof (induction xs arbitrary: s)
  case Nil
  then show ?case by simp
next
  case (Cons x xs)
  from Cons.prems(2) obtain s1 where s1: "body x s = Some s1" "for_each xs body s1 = Some s'"
    by (auto simp: bind_eq_Some_conv)
  from step [OF Cons.prems(1) s1(1)] have "I s1" .
  from Cons.IH [OF this s1(2)] show ?case .
qed

lemma draw_pixel_keeps_opaque:
  assumes "draw_pixel img x y color s = Some s'"
    and inv: "\<forall>im \<in> set (images s). opaque_or_clear im"
  shows "\<forall>im \<in> set (images s'). opaque_or_clear im"
proof (cases "0 \<le> x \<and> x < 16 \<and> 0 \<le> y \<and> y < 16")
  case False
  with assms show ?thesis
    by (simp add: draw_pixel_outside)
next
  case True
  with assms(1) obtain c im where c: "img < length (images s)"
    "image_putpixel (images s ! img) (x, y) (with_alpha c 255) = Some im"
    "s' = s\<lparr>images := (images s)[img := im]\<rparr>"
    by (auto simp: draw_pixel_def TILE_SIZE_def putpixel_def bind_eq_Some_conv split: if_splits)
  from c(2) True have "im = paint (images s ! img) x y (with_alpha c 255)"
    by (auto simp: image_putpixel_def paint_def Let_def split: if_splits)
  moreover from c(1) inv have "opaque_or_clear (images s ! img)"
    by simp
  ultimately have im: "opaque_or_clear im"
    by (simp add: opaque_paint)
  show ?thesis
  proof
    fix im' assume "im' \<in> set (images s')"
    with c(3) have "im' \<in> set ((images s)[img := im])" by simp
    then have "im' = im \<or> im' \<in> set (images s)" by (rule in_set_updD)
    with im inv show "opaque_or_clear im'" by blast
  qed
qed

lemma fill_rect_keeps_opaque:
  assumes "fill_rect img x y w h color s = Some s'"
    and inv: "\<forall>im \<in> set (images s). opaque_or_clear im"
  shows "\<forall>im \<in> set (images s'). opaque_or_clear im"
proof -
  let ?I = "\<lambda>s. \<forall>im \<in> set (images s). opaque_or_clear im"
  have row: "?I t'" if "?I t" "for_each (py_range x (x + w)) (\<lambda>px. draw_pixel img px py color) t = Some t'"
    for py t t'
    by (rule for_each_invariant [where I = ?I, OF draw_pixel_keeps_opaque that])
  show ?thesis
    by (rule for_each_invariant [where I = ?I, OF row inv assms(1) [unfolded fill_rect_def]])
qed

text \<open>
  C10: in the canvas that any of the 39 drawers returns, every pixel is either the
  transparent black (0, 0, 0, 0) of the initial fill or has alpha 255. The reason is that
  every write goes through \<open>draw_pixel\<close>, which appends alpha 255 to the colour, be it
  named or literal: \<open>draw_pixel\<close> and \<open>fill_rect\<close> keep this property of all the images
  of the world.
\<close>

theorem drawers_opaque_or_clear:
  "(\<forall>d \<in> set sprite_drawers. \<forall>s.
      \<exists>c. returned (d s) = Some c \<and>
          (\<forall>row \<in> set c. \<forall>p \<in> set row. p = (0, 0, 0, 0) \<or> alpha p = 255)) \<and>
   (\<forall>img x y color s s'.
      draw_pixel img x y color s = Some s' \<longrightarrow>
      (\<forall>im \<in> set (images s). opaque_or_clear im) \<longrightarrow>
      (\<forall>im \<in> set (images s'). opaque_or_clear im)) \<and>
   (\<forall>img x y w h color s s'.
      fill_rect img x y w h color s = Some s' \<longrightarrow>
      (\<forall>im \<in> set (images s). opaque_or_clear im) \<longrightarrow>
      (\<forall>im \<in> set (images s'). opaque_or_clear im))"
proof (intro conjI ballI allI impI)
  fix d s
  assume "d \<in> set sprite_drawers"
  then obtain c where c: "draws d c"
    using sprite_drawers_draw by blast
  then have "returned (d s) = Some c"
    by (rule draws_returned)
  moreover from c have "\<forall>row \<in> set c. \<forall>p \<in> set row. p = (0, 0, 0, 0) \<or> alpha p = 255"
    by (simp add: draws_def opaque_or_clear_def)
  ultimately show "\<exists>c. returned (d s) = Some c \<and>
          (\<forall>row \<in> set c. \<forall>p \<in> set row. p = (0, 0, 0, 0) \<or> alpha p = 255)"
    by blast
next
  fix img x y color s s' im
  assume "draw_pixel img x y color s = Some s'" "\<forall>im \<in> set (images s). opaque_or_clear im"
    "im \<in> set (images s')"
  then show "opaque_or_clear im"
    using draw_pixel_keeps_opaque by blast
next
  fix img x y w h color s s' im
  assume "fill_rect img x y w h color s = Some s'" "\<forall>im \<in> set (images s). opaque_or_clear im"
    "im \<in> set (images s')"
  then show "opaque_or_clear im"
    using fill_rect_keeps_opaque by blast
qed

theorem drawers_opaque_or_clear_witness:
  "(\<exists>c. returned (ui_selection empty_world) = Some c \<and>
        (\<forall>row \<in> set c. \<forall>p \<in> set row. p = (0, 0, 0, 0) \<or> alpha p = 255)) \<and>
   (\<exists>s'. draw_pixel 0 1 1 (Literal (1, 2, 3)) \<lparr>images = [blank], trace = []\<rparr> = Some s' \<and>
         (\<forall>im \<in> set (images s'). opaque_or_clear im)) \<and>
   (\<exists>s'. fill_rect 0 1 1 2 2 (Named ''gold'') \<lparr>images = [blank], trace = []\<rparr> = Some s' \<and>
         (\<forall>im \<in> set (images s'). opaque_or_clear im))"
proof -
  let ?s = "\<lparr>images = [blank], trace = []\<rparr>"
  have inv: "opaque_or_clear im" if "im \<in> set (images ?s)" for im
    using that by (simp add: opaque_or_clear_blank)
  have "acts (\<lambda>r. draw_pixel r 1 1 (Literal (1, 2, 3)))
          (\<lambda>im. paint im 1 1 (with_alpha (the (resolve (Literal (1, 2, 3)))) 255))"
    by (rule acts_draw_pixel) (simp add: resolve_simps)
  then obtain s1 where s1: "draw_pixel 0 1 1 (Literal (1, 2, 3)) ?s = Some s1"
    by (simp add: acts_def is_canvas_blank)
  have "acts (\<lambda>r. fill_rect r 1 1 2 2 (Named ''gold''))
          (\<lambda>im. paint_rect im 1 1 2 2 (with_alpha (the (resolve (Named ''gold''))) 255))"
    by (rule acts_fill_rect) (simp add: resolve_simps)
  then obtain s2 where s2: "fill_rect 0 1 1 2 2 (Named ''gold'') ?s = Some s2"
    by (simp add: acts_def is_canvas_blank)
  note drawer = drawers_opaque_or_clear [THEN conjunct1, rule_format]
    and pixel = drawers_opaque_or_clear [THEN conjunct2, THEN conjunct1, rule_format]
    and rect = drawers_opaque_or_clear [THEN conjunct2, THEN conjunct2, rule_format]
  have a: "\<exists>c. returned (ui_selection empty_world) = Some c \<and>
        (\<forall>row \<in> set c. \<forall>p \<in> set row. p = (0, 0, 0, 0) \<or> alpha p = 255)"
    by (rule drawer [OF ui_selection_is_drawer])
  have "\<forall>im \<in> set (images s1). opaque_or_clear im"
    by (rule ballI) (rule pixel [OF s1 inv])
  with s1 have b: "\<exists>s'. draw_pixel 0 1 1 (Literal (1, 2, 3)) ?s = Some s' \<and>
         (\<forall>im \<in> set (images s'). opaque_or_clear im)"
    by blast
  have "\<forall>im \<in> set (images s2). opaque_or_clear im"
    by (rule ballI) (rule rect [OF s2 inv])
  with s2 have c: "\<exists>s'. fill_rect 0 1 1 2 2 (Named ''gold'') ?s = Some s' \<and>
         (\<forall>im \<in> set (images s'). opaque_or_clear im)"
    by blast
  from a b c show ?thesis
    by (intro conjI)
qed

end
